theory Spec2Isabelle
  imports Main "HOL-Library.AList" "HOL-Library.Sublist"
begin

section \<open>Values, objects and Y.Doc documents\<close>

text \<open>
  The module \<^verbatim>\<open>src/data-providers/yjs/thoughtspace.ts\<close> keeps Yjs documents in
  module-level caches and replicates them through an IndexedDB provider and a
  websocket provider. Yjs, y-indexeddb and Hocuspocus are external libraries: a
  \<^verbatim>\<open>Y.Map\<close> is modelled as an ordered association list with distinct keys
  (\<^verbatim>\<open>get\<close> is \<open>map_of\<close>, \<^verbatim>\<open>set\<close> is \<open>AList.update\<close>, \<^verbatim>\<open>delete\<close> is
  \<open>AList.delete\<close>), and a JavaScript object as an association list whose key
  order is the order of \<^verbatim>\<open>Object.keys\<close> (insertion order: none of the keys below
  is an array index). A key that is deleted and set again is listed last here; a
  \<^verbatim>\<open>Y.Map\<close> lists it where it was first set. No property below is about the order
  of the keys of a document after a deletion.

  Values of a Lexeme document (\<^verbatim>\<open>LexemeYjs\<close>: strings and null) and of a Lexeme
  object (strings and the array of context ids).
\<close>

datatype jsval = JNull | JStr string | JArr "string list"

type_synonym jsobj = "(string \<times> jsval) list"

type_synonym ThoughtId = string

text \<open>
  Values of a thought's \<^verbatim>\<open>Y.Map\<close> (\<^verbatim>\<open>ThoughtYjs\<close>): strings, numbers and the
  nested children map.
\<close>

datatype tval = TStr string | TNum int | TMap "(string \<times> ThoughtId) list"

text \<open>JavaScript truthiness of the values above.\<close>

fun tval_truthy :: "tval \<Rightarrow> bool" where
  "tval_truthy (TStr s) = (s \<noteq> [])"
| "tval_truthy (TNum n) = (n \<noteq> 0)"
| "tval_truthy (TMap m) = True"

text \<open>
  A thought as \<^verbatim>\<open>getThought\<close> builds it: every field but \<^verbatim>\<open>id\<close> is read from the
  document and is \<open>None\<close> (\<^verbatim>\<open>undefined\<close>) when the document has no such key.
\<close>

record Thought =
  t_childrenMap :: "tval option"
  t_created :: "tval option"
  t_id :: ThoughtId
  t_lastUpdated :: "tval option"
  t_parentId :: "tval option"
  t_rank :: "tval option"
  t_updatedBy :: "tval option"
  t_value :: "tval option"
  t_archived :: "tval option"

text \<open>
  A \<^verbatim>\<open>Y.Doc\<close>: its guid, the top-level maps the module reads
  (\<^verbatim>\<open>getMap('thought')\<close>, \<^verbatim>\<open>getMap('children')\<close> and the default \<^verbatim>\<open>getMap()\<close>),
  whether \<^verbatim>\<open>destroy()\<close> has been called, and how many times \<^verbatim>\<open>onLexemeChange\<close>
  is registered as an observer of the default map.
\<close>

record YDoc =
  guid :: string
  ymap_thought :: "(string \<times> jsval) list"
  ymap_children :: "(ThoughtId \<times> (string \<times> tval) list) list"
  ymap_root :: "(string \<times> jsval) list"
  ymap_root_undefined :: "jsval option"
  destroyed :: bool
  root_observers :: nat

definition new_YDoc :: "string \<Rightarrow> YDoc" where
  "new_YDoc name =
     \<lparr>guid = name, ymap_thought = [], ymap_children = [], ymap_root = [],
      ymap_root_undefined = None, destroyed = False, root_observers = 0\<rparr>"

text \<open>
  \<^verbatim>\<open>toJSON\<close> and \<^verbatim>\<open>size\<close> of the default map. The entry under the key
  \<^verbatim>\<open>undefined\<close> shows as the property \<^verbatim>\<open>undefined\<close> of the JSON object, listed after
  the string keys unless one of them has that name.
\<close>

definition ymap_root_toJSON :: "YDoc \<Rightarrow> (string \<times> jsval) list" where
  "ymap_root_toJSON d =
     (case ymap_root_undefined d of
        None \<Rightarrow> ymap_root d
      | Some v \<Rightarrow> AList.update ''undefined'' v (ymap_root d))"

definition ymap_root_size :: "YDoc \<Rightarrow> nat" where
  "ymap_root_size d =
     length (ymap_root d) + (case ymap_root_undefined d of None \<Rightarrow> 0 | Some v \<Rightarrow> 1)"

subsection \<open>Constant tables\<close>

text \<open>\<^verbatim>\<open>lexemeKeyToDb\<close> and \<^verbatim>\<open>lexemeKeyFromDb\<close>; a key outside the table reads \<^verbatim>\<open>undefined\<close>.\<close>

definition lexemeKeyToDb :: "string \<Rightarrow> string option" where
  "lexemeKeyToDb k =
     (if k = ''created'' then Some ''c''
      else if k = ''lastUpdated'' then Some ''l''
      else if k = ''contexts'' then Some ''x''
      else if k = ''updatedBy'' then Some ''u''
      else None)"

definition lexemeKeyFromDb :: "string \<Rightarrow> string option" where
  "lexemeKeyFromDb k =
     (if k = ''c'' then Some ''created''
      else if k = ''l'' then Some ''lastUpdated''
      else if k = ''x'' then Some ''contexts''
      else if k = ''u'' then Some ''updatedBy''
      else None)"

text \<open>A computed property name: \<^verbatim>\<open>undefined\<close> becomes the string \<^verbatim>\<open>"undefined"\<close>.\<close>

definition js_property_name :: "string option \<Rightarrow> string" where
  "js_property_name k = (case k of None \<Rightarrow> ''undefined'' | Some n \<Rightarrow> n)"

definition IDB_ERROR_RETRY :: nat where
  "IDB_ERROR_RETRY = 1000"

definition UPDATE_THOUGHTS_THROTTLE :: nat where
  "UPDATE_THOUGHTS_THROTTLE = 100"

subsection \<open>String helpers\<close>

text \<open>
  \<^verbatim>\<open>String.prototype.split(sep)\<close> for a non-empty separator: the pieces between
  the successive leftmost occurrences of \<open>sep\<close>. \<open>cur\<close> is the piece being read.
\<close>

fun js_split_from :: "string \<Rightarrow> string \<Rightarrow> string \<Rightarrow> string list" where
  "js_split_from sep cur [] = [cur]"
| "js_split_from sep cur (c # cs) =
     (if prefix sep (c # cs)
      then cur # js_split_from sep [] (drop (length sep - 1) cs)
      else js_split_from sep (cur @ [c]) cs)"

definition js_split :: "string \<Rightarrow> string \<Rightarrow> string list" where
  "js_split sep s = js_split_from sep [] s"

text \<open>
  \<^verbatim>\<open>key.split('cx-')[1]\<close> followed by the test \<^verbatim>\<open>if (cxid)\<close>: the second piece when
  there is one and it is not the empty string.
\<close>

definition cxid_of_key :: "string \<Rightarrow> ThoughtId option" where
  "cxid_of_key key =
     (case js_split ''cx-'' key of
        a # b # rest \<Rightarrow> (if b = [] then None else Some b)
      | _ \<Rightarrow> None)"

text \<open>The template literal \<^verbatim>\<open>`cx-${cxid}`\<close>.\<close>

definition cx_key :: "ThoughtId \<Rightarrow> string" where
  "cx_key cxid = ''cx-'' @ cxid"

text \<open>
  \<^verbatim>\<open>new Set(v)\<close> and \<^verbatim>\<open>[...(v || [])]\<close> for \<open>v\<close> a value or \<^verbatim>\<open>undefined\<close>: the elements
  of an array, the characters of a string, nothing for null and \<^verbatim>\<open>undefined\<close>.
\<close>

fun js_elements :: "jsval option \<Rightarrow> string list" where
  "js_elements None = []"
| "js_elements (Some JNull) = []"
| "js_elements (Some (JStr s)) = map (\<lambda>c. [c]) s"
| "js_elements (Some (JArr xs)) = xs"

text \<open>
  Strict inequality \<^verbatim>\<open>value !== lexemeMap.get(key)\<close>. An array is an object and is
  only identical to itself; the array held by a Lexeme object is never the
  object a document returns, so an array always differs.
\<close>

fun js_strict_neq :: "jsval option \<Rightarrow> jsval option \<Rightarrow> bool" where
  "js_strict_neq (Some (JArr xs)) b = True"
| "js_strict_neq a (Some (JArr ys)) = True"
| "js_strict_neq a b = (a \<noteq> b)"

subsection \<open>Reading thoughts and lexemes from a document\<close>

text \<open>\<^verbatim>\<open>getThought\<close>: \<^verbatim>\<open>undefined\<close> without a document, map or entries.\<close>

definition getThought :: "YDoc option \<Rightarrow> ThoughtId \<Rightarrow> Thought option" where
  "getThought thoughtDoc ident =
     (case thoughtDoc of
        None \<Rightarrow> None
      | Some d \<Rightarrow>
          (case map_of (ymap_children d) ident of
             None \<Rightarrow> None
           | Some thoughtMap \<Rightarrow>
               if length thoughtMap = 0 then None
               else Some
                 \<lparr>t_childrenMap = map_of thoughtMap ''m'',
                  t_created = map_of thoughtMap ''c'',
                  t_id = ident,
                  t_lastUpdated = map_of thoughtMap ''l'',
                  t_parentId = map_of thoughtMap ''p'',
                  t_rank = map_of thoughtMap ''r'',
                  t_updatedBy = map_of thoughtMap ''u'',
                  t_value = map_of thoughtMap ''v'',
                  t_archived =
                    (case map_of thoughtMap ''a'' of
                       None \<Rightarrow> None
                     | Some a \<Rightarrow> if tval_truthy a then Some a else None)\<rparr>))"

text \<open>
  \<^verbatim>\<open>getChildren\<close>: \<^verbatim>\<open>undefined\<close> when the document is missing or has no
  \<^verbatim>\<open>docKey\<close> entry in its \<^verbatim>\<open>thought\<close> map, else the thoughts of all children keys.
\<close>

definition getChildren :: "YDoc option \<Rightarrow> Thought list option" where
  "getChildren thoughtDoc =
     (case thoughtDoc of
        None \<Rightarrow> None
      | Some d \<Rightarrow>
          if map_of (ymap_thought d) ''docKey'' = None then None
          else Some (List.map_filter (getThought (Some d)) (map fst (ymap_children d))))"

text \<open>
  \<^verbatim>\<open>getLexeme\<close>: one reduction step per key of the document's JSON. A key whose
  second \<^verbatim>\<open>cx-\<close> piece is non-empty appends that piece to \<^verbatim>\<open>contexts\<close>; any
  other key is renamed through \<^verbatim>\<open>lexemeKeyFromDb\<close>.
\<close>

definition getLexeme_step :: "jsobj \<Rightarrow> jsobj \<Rightarrow> string \<Rightarrow> jsobj" where
  "getLexeme_step lexemeRaw acc key =
     (case cxid_of_key key of
        Some cxid \<Rightarrow>
          AList.update ''contexts''
            (JArr (js_elements (map_of acc ''contexts'') @ [cxid])) acc
      | None \<Rightarrow>
          (case map_of lexemeRaw key of
             None \<Rightarrow> acc
           | Some v \<Rightarrow> AList.update (js_property_name (lexemeKeyFromDb key)) v acc))"

definition getLexeme :: "YDoc option \<Rightarrow> jsobj option" where
  "getLexeme lexemeDoc =
     (case lexemeDoc of
        None \<Rightarrow> None
      | Some d \<Rightarrow>
          if ymap_root_size d = 0 then None
          else Some (foldl (getLexeme_step (ymap_root_toJSON d)) [(''contexts'', JArr [])]
                       (map fst (ymap_root_toJSON d))))"

section \<open>Module state\<close>

text \<open>
  A thrown value or a rejection reason: every error the module inspects is read
  through \<^verbatim>\<open>e.name\<close> and \<^verbatim>\<open>e.message\<close>.
\<close>

record js_error =
  err_name :: string
  err_message :: string

definition js_Error :: "string \<Rightarrow> js_error" where
  "js_Error m = \<lparr>err_name = ''Error'', err_message = m\<rparr>"

definition js_TypeError :: "string \<Rightarrow> js_error" where
  "js_TypeError m = \<lparr>err_name = ''TypeError'', err_message = m\<rparr>"

text \<open>How a promise settles.\<close>

datatype 'a settled = Resolved 'a | Rejected js_error

text \<open>
  The imported constants of \<^verbatim>\<open>../../constants\<close> and the build mode
  \<^verbatim>\<open>import.meta.env.MODE\<close>; their values are not part of this module, so every
  operation takes them as a parameter.
\<close>

record constants =
  HOME_TOKEN :: string
  EM_TOKEN :: string
  ABSOLUTE_TOKEN :: string
  ROOT_PARENT_ID :: string
  ROOT_CONTEXTS :: "string list"
  MODE :: string

text \<open>The fields of \<^verbatim>\<open>ThoughtspaceConfig\<close> that the operations below read.\<close>

record ThoughtspaceConfig =
  cfg_accessToken :: string
  cfg_tsid :: string

text \<open>
  Provider objects. \<open>idb_synced\<close> is y-indexeddb's \<^verbatim>\<open>synced\<close> flag: false from
  construction until \<^verbatim>\<open>whenSynced\<close> resolves.
\<close>

record IndexeddbPersistence =
  idb_name :: string
  idb_doc :: nat
  idb_synced :: bool

record HocuspocusProvider =
  ws_name :: string
  ws_document :: nat
  ws_token :: string
  ws_destroyed :: bool

text \<open>The options of \<^verbatim>\<open>replicateChildren\<close>; \<^verbatim>\<open>remote\<close> defaults to true at the call.\<close>

record rc_options =
  background :: bool
  onDoc :: bool
  remote :: bool

record PushBatch =
  thoughtIndexUpdates :: "(string \<times> Thought option) list"
  lexemeIndexUpdates :: "(string \<times> jsobj option) list"
  lexemeIndexUpdatesOld :: "(string \<times> jsobj option) list"

text \<open>
  The promises cached per key: \<^verbatim>\<open>idbSynced\<close> is the handler chain on the
  \<^verbatim>\<open>whenSynced\<close> of a persistence, \<^verbatim>\<open>websocketSynced\<close> the one on the
  \<^verbatim>\<open>synced\<close> event of a provider. Both are named by the provider they hang on.
  \<open>ConfigPromise\<close> is the module's \<^verbatim>\<open>config\<close>.
\<close>

datatype promise = IdbSyncedOf nat | WebsocketSyncedOf nat | ConfigPromise

text \<open>Callbacks handed to \<^verbatim>\<open>setTimeout\<close>, with the delay they were given.\<close>

datatype task =
    Retry_replicateChildren string rc_options
  | Retry_replicateLexeme string bool
  | Retry_updateLexeme string jsobj "jsobj option"
  | Throttle_flush
  | Dispatch_updateThoughts PushBatch

text \<open>
  What is left of an async call that nobody awaits (\<^verbatim>\<open>freeThought(docKey)\<close> inside
  a catch handler) or of a \<^verbatim>\<open>config.then(...)\<close> while the config is unresolved: the
  promise it is suspended on and what it runs afterwards.
\<close>

datatype continuation =
    Then_tryDeallocateThought string
  | Then_tryDeallocateLexeme string
  | Then_onUpdateThoughts PushBatch
  | Then_onError string js_error

text \<open>Calls that leave the module: application callbacks, the console, storage.\<close>

datatype effect =
    OnDoc nat
  | OnError string js_error
  | ConsoleError string
  | OnUpdateThoughts PushBatch bool bool bool
  | ClearData nat
  | ClearDocument string

text \<open>
  The module variables, the objects they refer to (a document, persistence or
  provider is the index of its record in the list of all objects created so
  far, so that two references to one object alias), the timers set, the
  detached calls, the batches queued by the throttle and the effects so far.
\<close>

record world =
  thoughtDocs :: "string \<rightharpoonup> nat"
  thoughtPersistence :: "string \<rightharpoonup> nat"
  thoughtRetained :: "string set"
  thoughtWebsocketProvider :: "string \<rightharpoonup> nat"
  thoughtIDBSynced :: "string \<rightharpoonup> promise"
  thoughtWebsocketSynced :: "string \<rightharpoonup> promise"
  lexemeDocs :: "string \<rightharpoonup> nat"
  lexemePersistence :: "string \<rightharpoonup> nat"
  lexemeRetained :: "string set"
  lexemeWebsocketProvider :: "string \<rightharpoonup> nat"
  lexemeIDBSynced :: "string \<rightharpoonup> promise"
  lexemeWebsocketSynced :: "string \<rightharpoonup> promise"
  docKeys :: "ThoughtId \<rightharpoonup> string"
  configCache :: "ThoughtspaceConfig option"
  heap_docs :: "YDoc list"
  heap_idb :: "IndexeddbPersistence list"
  heap_ws :: "HocuspocusProvider list"
  timers :: "(nat \<times> task) list"
  detached :: "(promise option \<times> continuation) list"
  throttle_queue :: "PushBatch list"
  effects :: "effect list"

text \<open>Object creation and access.\<close>

definition doc_at :: "world \<Rightarrow> nat \<Rightarrow> YDoc option" where
  "doc_at s d = (if d < length (heap_docs s) then Some (heap_docs s ! d) else None)"

definition alloc_doc :: "string \<Rightarrow> world \<Rightarrow> nat \<times> world" where
  "alloc_doc name s =
     (length (heap_docs s), s\<lparr>heap_docs := heap_docs s @ [new_YDoc name]\<rparr>)"

definition alloc_idb :: "string \<Rightarrow> nat \<Rightarrow> world \<Rightarrow> nat \<times> world" where
  "alloc_idb name d s =
     (length (heap_idb s),
      s\<lparr>heap_idb := heap_idb s @ [\<lparr>idb_name = name, idb_doc = d, idb_synced = False\<rparr>]\<rparr>)"

definition alloc_ws :: "string \<Rightarrow> nat \<Rightarrow> string \<Rightarrow> world \<Rightarrow> nat \<times> world" where
  "alloc_ws name d token s =
     (length (heap_ws s),
      s\<lparr>heap_ws := heap_ws s @
           [\<lparr>ws_name = name, ws_document = d, ws_token = token, ws_destroyed = False\<rparr>]\<rparr>)"

text \<open>The environment: the \<^verbatim>\<open>whenSynced\<close> of a persistence resolves.\<close>

definition idb_whenSynced_resolves :: "nat \<Rightarrow> world \<Rightarrow> world" where
  "idb_whenSynced_resolves p s =
     (if p < length (heap_idb s)
      then s\<lparr>heap_idb := (heap_idb s)[p := (heap_idb s ! p)\<lparr>idb_synced := True\<rparr>]\<rparr>
      else s)"

definition destroy_doc :: "nat option \<Rightarrow> world \<Rightarrow> world" where
  "destroy_doc r s =
     (case r of
        None \<Rightarrow> s
      | Some d \<Rightarrow>
          if d < length (heap_docs s)
          then s\<lparr>heap_docs := (heap_docs s)[d := (heap_docs s ! d)\<lparr>destroyed := True\<rparr>]\<rparr>
          else s)"

definition destroy_ws :: "nat option \<Rightarrow> world \<Rightarrow> world" where
  "destroy_ws r s =
     (case r of
        None \<Rightarrow> s
      | Some w \<Rightarrow>
          if w < length (heap_ws s)
          then s\<lparr>heap_ws := (heap_ws s)[w := (heap_ws s ! w)\<lparr>ws_destroyed := True\<rparr>]\<rparr>
          else s)"

definition emit :: "effect \<Rightarrow> world \<Rightarrow> world" where
  "emit e s = s\<lparr>effects := effects s @ [e]\<rparr>"

definition setTimeout :: "task \<Rightarrow> nat \<Rightarrow> world \<Rightarrow> world" where
  "setTimeout t ms s = s\<lparr>timers := timers s @ [(ms, t)]\<rparr>"

text \<open>
  Modelled from the spec: \<^verbatim>\<open>encodeThoughtDocumentName\<close>, \<^verbatim>\<open>encodeLexemeDocumentName\<close>
  and \<^verbatim>\<open>parseDocumentName\<close> are imported from \<^verbatim>\<open>./documentNameEncoder\<close>, which
  is not among the sources. A document has a deterministic name derived from
  the space id, the kind and the key; the format is the one the comment in
  \<^verbatim>\<open>onLexemeChange\<close> gives for lexemes (\<^verbatim>\<open>${tsid}/lexeme/${id}\<close>), and
  \<open>parseDocumentName_id\<close> reads the id back.
\<close>

definition encodeThoughtDocumentName :: "string \<Rightarrow> string \<Rightarrow> string" where
  "encodeThoughtDocumentName tsid docKey = tsid @ ''/thought/'' @ docKey"

definition encodeLexemeDocumentName :: "string \<Rightarrow> string \<Rightarrow> string" where
  "encodeLexemeDocumentName tsid key = tsid @ ''/lexeme/'' @ key"

fun join_with :: "string \<Rightarrow> string list \<Rightarrow> string" where
  "join_with sep [] = []"
| "join_with sep [x] = x"
| "join_with sep (x # y # ys) = x @ sep @ join_with sep (y # ys)"

definition parseDocumentName_id :: "string \<Rightarrow> string" where
  "parseDocumentName_id name = join_with ''/'' (drop 2 (js_split ''/'' name))"

section \<open>Thought documents\<close>

text \<open>
  An async function runs without interruption up to an \<^verbatim>\<open>await\<close> and is resumed
  later, after other code may have run. Each function below is one such
  uninterrupted segment of the source function it is named after, from the
  world it starts in to the world it leaves, together with what it waits for or
  returns.

  Of \<^verbatim>\<open>replicateChildren\<close> the segments embedded are the call up to its first
  \<^verbatim>\<open>await\<close> on a sync promise, the rest of the cached branch and the catch
  handler of \<^verbatim>\<open>idbSynced\<close>. The \<^verbatim>\<open>then\<close> handlers of the two sync promises and the
  fresh branch after \<^verbatim>\<open>await idbSynced\<close> (observers, the callbacks
  \<^verbatim>\<open>onThoughtIDBSynced\<close>, \<^verbatim>\<open>onThoughtReplicated\<close> and \<^verbatim>\<open>isThoughtLoaded\<close>) are
  not; no property below is about them.
\<close>

text \<open>
  Where the first segments of \<^verbatim>\<open>replicateChildren\<close> stop: waiting for the config,
  waiting for the promise cached for the key (\<open>None\<close> when the map has no entry:
  \<^verbatim>\<open>await undefined\<close>), or waiting for the \<^verbatim>\<open>idbSynced\<close> of the persistence just
  created (with the document, the persistence and the provider, if any).
\<close>

datatype rc_suspension =
    RC_AwaitConfig
  | RC_AwaitCached nat "promise option"
  | RC_AwaitFresh nat nat "nat option"

text \<open>
  \<^verbatim>\<open>replicateChildren\<close> from the read of \<^verbatim>\<open>configCache\<close> to the first \<^verbatim>\<open>await\<close> on
  a sync promise.
\<close>

definition replicateChildren_main ::
  "constants \<Rightarrow> ThoughtspaceConfig \<Rightarrow> string \<Rightarrow> rc_options \<Rightarrow> world \<Rightarrow> rc_suspension \<times> world" where
  "replicateChildren_main K cfg docKey opts s =
     (let documentName = encodeThoughtDocumentName (cfg_tsid cfg) docKey;
          (doc, s1) = (case thoughtDocs s docKey of
                         Some d \<Rightarrow> (d, s)
                       | None \<Rightarrow> alloc_doc documentName s);
          s2 = (if onDoc opts then emit (OnDoc doc) s1 else s1);
          s3 = (if \<not> background opts
                then s2\<lparr>thoughtRetained := insert docKey (thoughtRetained s2)\<rparr>
                else s2)
      in if thoughtDocs s3 docKey \<noteq> None \<or> MODE K = ''test''
         then (RC_AwaitCached doc
                 (if background opts \<and> remote opts then thoughtWebsocketSynced s3 docKey
                  else thoughtIDBSynced s3 docKey), s3)
         else
           (let (persistence, s4) = alloc_idb documentName doc s3;
                (websocketProvider, s5) =
                  (if remote opts
                   then (let (w, s') = alloc_ws documentName doc (cfg_accessToken cfg) s4
                         in (Some w, s'))
                   else (None, s4));
                s6 = s5\<lparr>thoughtDocs := (thoughtDocs s5)(docKey \<mapsto> doc),
                        thoughtIDBSynced := (thoughtIDBSynced s5)(docKey \<mapsto> IdbSyncedOf persistence),
                        thoughtPersistence := (thoughtPersistence s5)(docKey \<mapsto> persistence)\<rparr>;
                s7 = (case websocketProvider of
                        None \<Rightarrow> s6
                      | Some w \<Rightarrow>
                          s6\<lparr>thoughtWebsocketProvider := (thoughtWebsocketProvider s6)(docKey \<mapsto> w),
                             thoughtWebsocketSynced :=
                               (thoughtWebsocketSynced s6)(docKey \<mapsto> WebsocketSyncedOf w)\<rparr>)
            in (RC_AwaitFresh doc persistence websocketProvider, s7)))"

text \<open>The call itself: it waits for the config only while \<^verbatim>\<open>configCache\<close> is unset.\<close>

definition replicateChildren ::
  "constants \<Rightarrow> string \<Rightarrow> rc_options \<Rightarrow> world \<Rightarrow> rc_suspension \<times> world" where
  "replicateChildren K docKey opts s =
     (case configCache s of
        None \<Rightarrow> (RC_AwaitConfig, s)
      | Some cfg \<Rightarrow> replicateChildren_main K cfg docKey opts s)"

text \<open>
  \<^verbatim>\<open>replicateThought\<close> up to its \<^verbatim>\<open>await\<close>: it throws when the id has no truthy
  docKey, otherwise it calls \<^verbatim>\<open>replicateChildren\<close>. On return it picks the child
  with the id.
\<close>

definition replicateThought ::
  "constants \<Rightarrow> ThoughtId \<Rightarrow> rc_options \<Rightarrow> world \<Rightarrow> (js_error + rc_suspension) \<times> world" where
  "replicateThought K ident opts s =
     (case docKeys s ident of
        None \<Rightarrow> (Inl (js_Error (''replicateThought: Missing docKey for thought '' @ ident)), s)
      | Some docKey \<Rightarrow>
          if docKey = []
          then (Inl (js_Error (''replicateThought: Missing docKey for thought '' @ ident)), s)
          else (let (w, s') = replicateChildren K docKey opts s in (Inr w, s')))"

definition replicateThought_return :: "ThoughtId \<Rightarrow> Thought list option \<Rightarrow> Thought option" where
  "replicateThought_return ident children =
     (case children of None \<Rightarrow> None | Some cs \<Rightarrow> find (\<lambda>child. t_id child = ident) cs)"

text \<open>\<^verbatim>\<open>Object.values(child.childrenMap)\<close>; it throws on \<^verbatim>\<open>undefined\<close>.\<close>

fun js_Object_values :: "tval option \<Rightarrow> js_error + string list" where
  "js_Object_values None = Inl (js_TypeError ''Cannot convert undefined or null to object'')"
| "js_Object_values (Some (TMap m)) = Inr (map snd m)"
| "js_Object_values (Some (TStr s)) = Inr (map (\<lambda>c. [c]) s)"
| "js_Object_values (Some (TNum n)) = Inr []"

text \<open>
  The loop that records the docKey of every child and grandchild; it stops at
  the first child whose \<^verbatim>\<open>childrenMap\<close> cannot be enumerated.
\<close>

fun set_docKeys_of_children ::
  "string \<Rightarrow> Thought list \<Rightarrow> (ThoughtId \<rightharpoonup> string) \<Rightarrow> js_error option \<times> (ThoughtId \<rightharpoonup> string)" where
  "set_docKeys_of_children docKey [] dk = (None, dk)"
| "set_docKeys_of_children docKey (child # rest) dk =
     (case js_Object_values (t_childrenMap child) of
        Inl e \<Rightarrow> (Some e, dk(t_id child \<mapsto> docKey))
      | Inr grandchildren \<Rightarrow>
          set_docKeys_of_children docKey rest
            (fold (\<lambda>grandchildId m. m(grandchildId \<mapsto> t_id child)) grandchildren
               (dk(t_id child \<mapsto> docKey))))"

text \<open>
  The cached branch of \<^verbatim>\<open>replicateChildren\<close> after its \<^verbatim>\<open>await\<close>: read the
  children of the document, record their docKeys and return them.
\<close>

definition replicateChildren_cached_resume ::
  "string \<Rightarrow> nat \<Rightarrow> world \<Rightarrow> Thought list option settled \<times> world" where
  "replicateChildren_cached_resume docKey doc s =
     (case getChildren (doc_at s doc) of
        None \<Rightarrow> (Resolved None, s)
      | Some children \<Rightarrow>
          (case set_docKeys_of_children docKey children (docKeys s) of
             (Some e, dk) \<Rightarrow> (Rejected e, s\<lparr>docKeys := dk\<rparr>)
           | (None, dk) \<Rightarrow> (Resolved (Some children), s\<lparr>docKeys := dk\<rparr>)))"

text \<open>\<^verbatim>\<open>String.prototype.includes\<close>.\<close>

fun js_includes :: "string \<Rightarrow> string \<Rightarrow> bool" where
  "js_includes [] needle = (needle = [])"
| "js_includes (c # cs) needle = (prefix needle (c # cs) \<or> js_includes cs needle)"

text \<open>The test both catch handlers make: \<^verbatim>\<open>e.name === 'AbortError' || e.message.includes('[AbortError]')\<close>.\<close>

definition is_AbortError :: "js_error \<Rightarrow> bool" where
  "is_AbortError e = (err_name e = ''AbortError'' \<or> js_includes (err_message e) ''[AbortError]'')"

text \<open>
  \<^verbatim>\<open>freeThought\<close> up to its \<^verbatim>\<open>await\<close>: it releases the key and waits for the cached
  \<^verbatim>\<open>idbSynced\<close>. It resumes with \<^verbatim>\<open>tryDeallocateThought\<close>.
\<close>

definition freeThought_begin :: "string \<Rightarrow> world \<Rightarrow> promise option \<times> world" where
  "freeThought_begin docKey s =
     (thoughtIDBSynced s docKey, s\<lparr>thoughtRetained := thoughtRetained s - {docKey}\<rparr>)"

text \<open>
  \<^verbatim>\<open>tryDeallocateThought\<close>: nothing when the key is retained; otherwise it deletes
  the docKey of whatever each child map holds under \<^verbatim>\<open>'id'\<close>, destroys the document
  and the websocket provider and clears the five caches.
\<close>

definition tryDeallocateThought :: "string \<Rightarrow> world \<Rightarrow> world" where
  "tryDeallocateThought docKey s =
     (if docKey \<in> thoughtRetained s then s
      else
        (let thoughtDoc = (case thoughtDocs s docKey of None \<Rightarrow> None | Some d \<Rightarrow> doc_at s d);
             s1 = (case thoughtDoc of
                     None \<Rightarrow> s
                   | Some d \<Rightarrow>
                       s\<lparr>docKeys :=
                           fold (\<lambda>(cid, thoughtMap) dk.
                                   case map_of thoughtMap ''id'' of
                                     Some (TStr childId) \<Rightarrow> dk(childId := None)
                                   | _ \<Rightarrow> dk)
                             (ymap_children d) (docKeys s)\<rparr>);
             s2 = destroy_doc (thoughtDocs s1 docKey) s1;
             s3 = destroy_ws (thoughtWebsocketProvider s2 docKey) s2
         in s3\<lparr>thoughtDocs := (thoughtDocs s3)(docKey := None),
                thoughtPersistence := (thoughtPersistence s3)(docKey := None),
                thoughtIDBSynced := (thoughtIDBSynced s3)(docKey := None),
                thoughtWebsocketProvider := (thoughtWebsocketProvider s3)(docKey := None),
                thoughtWebsocketSynced := (thoughtWebsocketSynced s3)(docKey := None)\<rparr>))"

text \<open>A call \<^verbatim>\<open>freeThought(docKey)\<close> that is not awaited.\<close>

definition freeThought_detached :: "string \<Rightarrow> world \<Rightarrow> world" where
  "freeThought_detached docKey s =
     (let (p, s1) = freeThought_begin docKey s
      in s1\<lparr>detached := detached s1 @ [(p, Then_tryDeallocateThought docKey)]\<rparr>)"

text \<open>
  The \<^verbatim>\<open>.catch\<close> handler at the end of the \<^verbatim>\<open>idbSynced\<close> chain of
  \<^verbatim>\<open>replicateChildren\<close>, applied to the rejection reason; its result is how
  \<^verbatim>\<open>idbSynced\<close> settles.
\<close>

definition replicateChildren_idbSynced_catch ::
  "string \<Rightarrow> rc_options \<Rightarrow> js_error \<Rightarrow> world \<Rightarrow> unit settled \<times> world" where
  "replicateChildren_idbSynced_catch docKey opts e s =
     (if is_AbortError e
      then (Resolved (),
            setTimeout (Retry_replicateChildren docKey opts) IDB_ERROR_RETRY
              (freeThought_detached docKey s))
      else (Resolved (),
            emit (OnError (''Error loading thought '' @ docKey @ '' from IndexedDB: '' @ err_message e) e) s))"

text \<open>
  \<^verbatim>\<open>updateThought\<close>: its first statement is \<^verbatim>\<open>return Promise.resolve()\<close>, so nothing
  below that statement is ever executed.
\<close>

definition updateThought :: "ThoughtId \<Rightarrow> Thought \<Rightarrow> world \<Rightarrow> unit settled \<times> world" where
  "updateThought ident thought s = (Resolved (), s)"

text \<open>
  \<^verbatim>\<open>deleteThought\<close> once the config is there, up to the \<^verbatim>\<open>await\<close> inside
  \<^verbatim>\<open>freeThought\<close>: the thought is removed from its parent document, the docKeys
  of the thought and of its children are deleted, the storage clear is started
  and the key is released.
\<close>

definition deleteThought_begin ::
  "ThoughtspaceConfig \<Rightarrow> string \<Rightarrow> world \<Rightarrow> promise option \<times> world" where
  "deleteThought_begin cfg docKey s =
     (let persistence = thoughtPersistence s docKey;
          docParent = (case docKeys s docKey of
                         None \<Rightarrow> None
                       | Some docKeyParent \<Rightarrow>
                           if docKeyParent = [] then None else thoughtDocs s docKeyParent);
          s1 = (case docParent of
                  None \<Rightarrow> s
                | Some d \<Rightarrow>
                    if d < length (heap_docs s)
                    then s\<lparr>heap_docs := (heap_docs s)
                           [d := (heap_docs s ! d)
                              \<lparr>ymap_children := AList.delete docKey (ymap_children (heap_docs s ! d))\<rparr>]\<rparr>
                    else s);
          s2 = s1\<lparr>docKeys := (docKeys s1)(docKey := None)\<rparr>;
          children = getChildren (case thoughtDocs s2 docKey of None \<Rightarrow> None | Some d \<Rightarrow> doc_at s2 d);
          s3 = (case children of
                  None \<Rightarrow> s2
                | Some cs \<Rightarrow> s2\<lparr>docKeys := fold (\<lambda>child dk. dk(t_id child := None)) cs (docKeys s2)\<rparr>);
          s4 = (case persistence of
                  Some p \<Rightarrow> emit (ClearData p) s3
                | None \<Rightarrow> emit (ClearDocument (encodeThoughtDocumentName (cfg_tsid cfg) docKey)) s3)
      in freeThought_begin docKey s4)"

text \<open>
  The rest of \<^verbatim>\<open>deleteThought\<close>: \<^verbatim>\<open>freeThought\<close> resumes with
  \<^verbatim>\<open>tryDeallocateThought\<close>, then the clear is awaited. \<open>cleared\<close> is how the clear
  settled: \<open>None\<close> when it succeeded, else its error. Only a \<^verbatim>\<open>NotFoundError\<close> is
  caught.
\<close>

definition deleteThought_finish ::
  "string \<Rightarrow> js_error option \<Rightarrow> world \<Rightarrow> unit settled \<times> world" where
  "deleteThought_finish docKey cleared s =
     (let s1 = tryDeallocateThought docKey s
      in case cleared of
           None \<Rightarrow> (Resolved (), s1)
         | Some e \<Rightarrow> if err_name e \<noteq> ''NotFoundError'' then (Rejected e, s1) else (Resolved (), s1))"

text \<open>\<^verbatim>\<open>deleteThought\<close> when nothing else runs between its segments.\<close>

definition deleteThought ::
  "ThoughtspaceConfig \<Rightarrow> string \<Rightarrow> js_error option \<Rightarrow> world \<Rightarrow> unit settled \<times> world" where
  "deleteThought cfg docKey cleared s =
     deleteThought_finish docKey cleared (snd (deleteThought_begin cfg docKey s))"

section \<open>Change notification batches\<close>

text \<open>
  Modelled from the spec: \<^verbatim>\<open>mergeBatch\<close> is imported from \<^verbatim>\<open>../../util/mergeBatch\<close>,
  which is not among the sources. The batches of one window are merged into
  one; later values for the same key override earlier ones, and a deletion
  stays in the batch as an explicit null marker (the value \<open>None\<close> under its
  key).
\<close>

definition mergeBatch :: "PushBatch \<Rightarrow> PushBatch \<Rightarrow> PushBatch" where
  "mergeBatch a b =
     \<lparr>thoughtIndexUpdates = AList.merge (thoughtIndexUpdates a) (thoughtIndexUpdates b),
      lexemeIndexUpdates = AList.merge (lexemeIndexUpdates a) (lexemeIndexUpdates b),
      lexemeIndexUpdatesOld = AList.merge (lexemeIndexUpdatesOld a) (lexemeIndexUpdatesOld b)\<rparr>"

definition empty_batch :: PushBatch where
  "empty_batch = \<lparr>thoughtIndexUpdates = [], lexemeIndexUpdates = [], lexemeIndexUpdatesOld = []\<rparr>"

text \<open>
  The callback \<^verbatim>\<open>updateThoughtsThrottled\<close> hands to \<^verbatim>\<open>throttleConcat\<close>: it reduces
  the batches with \<^verbatim>\<open>mergeBatch\<close> and sets a timer (no delay given) for the
  dispatch.
\<close>

definition updateThoughtsThrottled_callback :: "PushBatch list \<Rightarrow> world \<Rightarrow> world" where
  "updateThoughtsThrottled_callback batches s =
     setTimeout (Dispatch_updateThoughts (foldl mergeBatch empty_batch batches)) 0 s"

text \<open>
  The timer callback: \<^verbatim>\<open>config.then(...)\<close> calls \<^verbatim>\<open>onUpdateThoughts\<close> with the merged
  batch and \<^verbatim>\<open>local: false, remote: false, repairCursor: true\<close>, at once when the
  config is resolved and after it resolves otherwise.
\<close>

definition dispatch_updateThoughts :: "PushBatch \<Rightarrow> world \<Rightarrow> world" where
  "dispatch_updateThoughts merged s =
     (case configCache s of
        Some cfg \<Rightarrow> emit (OnUpdateThoughts merged False False True) s
      | None \<Rightarrow> s\<lparr>detached := detached s @ [(Some ConfigPromise, Then_onUpdateThoughts merged)]\<rparr>)"

text \<open>
  Modelled from the spec: \<^verbatim>\<open>throttleConcat\<close> is imported from
  \<^verbatim>\<open>../../util/throttleConcat\<close>, which is not among the sources. It is a
  single-consumer throttle that accepts batches as they occur, collects all
  batches received within a fixed window and hands them to its callback once,
  when the window closes. A call queues its batch and opens a window of
  \<open>UPDATE_THOUGHTS_THROTTLE\<close> milliseconds when none is open; the window's timer
  hands the queue to the callback and empties it.
\<close>

definition updateThoughtsThrottled :: "PushBatch \<Rightarrow> world \<Rightarrow> world" where
  "updateThoughtsThrottled b s =
     (let s1 = s\<lparr>throttle_queue := throttle_queue s @ [b]\<rparr>
      in if throttle_queue s = [] then setTimeout Throttle_flush UPDATE_THOUGHTS_THROTTLE s1 else s1)"

definition throttle_flush :: "world \<Rightarrow> world" where
  "throttle_flush s =
     (if throttle_queue s = [] then s
      else updateThoughtsThrottled_callback (throttle_queue s) (s\<lparr>throttle_queue := []\<rparr>))"

section \<open>Lexeme documents\<close>

text \<open>
  \<^verbatim>\<open>onLexemeChange\<close> as the module itself calls it, with a provider (never the
  document's client id) as the origin: it queues the lexeme read from the
  document under the key parsed from the guid.
\<close>

definition onLexemeChange :: "nat \<Rightarrow> world \<Rightarrow> world" where
  "onLexemeChange d s =
     (case getLexeme (doc_at s d) of
        None \<Rightarrow> s
      | Some lexeme \<Rightarrow>
          (case doc_at s d of
             None \<Rightarrow> s
           | Some doc \<Rightarrow>
               updateThoughtsThrottled
                 \<lparr>thoughtIndexUpdates = [],
                  lexemeIndexUpdates = [(parseDocumentName_id (guid doc), Some lexeme)],
                  lexemeIndexUpdatesOld = []\<rparr> s))"

text \<open>\<^verbatim>\<open>lexemeMap.observe(onLexemeChange)\<close> on the default map of a document.\<close>

definition observe_root :: "nat \<Rightarrow> world \<Rightarrow> world" where
  "observe_root d s =
     (if d < length (heap_docs s)
      then s\<lparr>heap_docs := (heap_docs s)
             [d := (heap_docs s ! d)\<lparr>root_observers := Suc (root_observers (heap_docs s ! d))\<rparr>]\<rparr>
      else s)"

text \<open>
  \<^verbatim>\<open>tryDeallocateLexeme\<close>: nothing when the key is retained; otherwise it removes
  the observer, destroys the document and the websocket provider and clears
  the five caches.
\<close>

definition tryDeallocateLexeme :: "string \<Rightarrow> world \<Rightarrow> world" where
  "tryDeallocateLexeme key s =
     (if key \<in> lexemeRetained s then s
      else
        (let s1 = (case lexemeDocs s key of
                     None \<Rightarrow> s
                   | Some d \<Rightarrow>
                       if d < length (heap_docs s) \<and> root_observers (heap_docs s ! d) \<noteq> 0
                       then s\<lparr>heap_docs := (heap_docs s)[d := (heap_docs s ! d)\<lparr>root_observers := 0\<rparr>]\<rparr>
                       else s);
             s2 = destroy_doc (lexemeDocs s1 key) s1;
             s3 = destroy_ws (lexemeWebsocketProvider s2 key) s2
         in s3\<lparr>lexemeDocs := (lexemeDocs s3)(key := None),
                lexemePersistence := (lexemePersistence s3)(key := None),
                lexemeIDBSynced := (lexemeIDBSynced s3)(key := None),
                lexemeWebsocketProvider := (lexemeWebsocketProvider s3)(key := None),
                lexemeWebsocketSynced := (lexemeWebsocketSynced s3)(key := None)\<rparr>))"

text \<open>\<^verbatim>\<open>freeLexeme\<close> up to its \<^verbatim>\<open>await\<close>; it resumes with \<^verbatim>\<open>tryDeallocateLexeme\<close>.\<close>

definition freeLexeme_begin :: "string \<Rightarrow> world \<Rightarrow> promise option \<times> world" where
  "freeLexeme_begin key s =
     (lexemeIDBSynced s key, s\<lparr>lexemeRetained := lexemeRetained s - {key}\<rparr>)"

definition freeLexeme_detached :: "string \<Rightarrow> world \<Rightarrow> world" where
  "freeLexeme_detached key s =
     (let (p, s1) = freeLexeme_begin key s
      in s1\<lparr>detached := detached s1 @ [(p, Then_tryDeallocateLexeme key)]\<rparr>)"

text \<open>
  Where the first segments of \<^verbatim>\<open>replicateLexeme\<close> stop: it has returned a value,
  or it waits as \<^verbatim>\<open>replicateChildren\<close> does (a fresh lexeme always has a
  websocket provider).
\<close>

datatype rl_suspension =
    RL_Returned "jsobj option"
  | RL_AwaitConfig
  | RL_AwaitCached nat "promise option"
  | RL_AwaitFresh nat nat nat

definition replicateLexeme_main ::
  "constants \<Rightarrow> ThoughtspaceConfig \<Rightarrow> string \<Rightarrow> bool \<Rightarrow> world \<Rightarrow> rl_suspension \<times> world" where
  "replicateLexeme_main K cfg key bg s =
     (let documentName = encodeLexemeDocumentName (cfg_tsid cfg) key;
          (doc, s1) = (case lexemeDocs s key of
                         Some d \<Rightarrow> (d, s)
                       | None \<Rightarrow> alloc_doc documentName s);
          s2 = (if \<not> bg then s1\<lparr>lexemeRetained := insert key (lexemeRetained s1)\<rparr> else s1)
      in if lexemeDocs s2 key \<noteq> None \<or> MODE K = ''test''
         then (RL_AwaitCached doc
                 (if bg then lexemeWebsocketSynced s2 key else lexemeIDBSynced s2 key), s2)
         else
           (let (persistence, s3) = alloc_idb documentName doc s2;
                (websocketProvider, s4) = alloc_ws documentName doc (cfg_accessToken cfg) s3
            in (RL_AwaitFresh doc persistence websocketProvider,
                s4\<lparr>lexemeDocs := (lexemeDocs s4)(key \<mapsto> doc),
                   lexemeIDBSynced := (lexemeIDBSynced s4)(key \<mapsto> IdbSyncedOf persistence),
                   lexemePersistence := (lexemePersistence s4)(key \<mapsto> persistence),
                   lexemeWebsocketSynced :=
                     (lexemeWebsocketSynced s4)(key \<mapsto> WebsocketSyncedOf websocketProvider),
                   lexemeWebsocketProvider :=
                     (lexemeWebsocketProvider s4)(key \<mapsto> websocketProvider)\<rparr>)))"

text \<open>The call itself: the special contexts return \<^verbatim>\<open>undefined\<close> before anything else.\<close>

definition replicateLexeme ::
  "constants \<Rightarrow> string \<Rightarrow> bool \<Rightarrow> world \<Rightarrow> rl_suspension \<times> world" where
  "replicateLexeme K key bg s =
     (if key = HOME_TOKEN K \<or> key = EM_TOKEN K \<or> key = ABSOLUTE_TOKEN K
      then (RL_Returned None, s)
      else (case configCache s of
              None \<Rightarrow> (RL_AwaitConfig, s)
            | Some cfg \<Rightarrow> replicateLexeme_main K cfg key bg s))"

text \<open>The cached branch after its \<^verbatim>\<open>await\<close>.\<close>

definition replicateLexeme_cached_resume :: "nat \<Rightarrow> world \<Rightarrow> jsobj option" where
  "replicateLexeme_cached_resume doc s = getLexeme (doc_at s doc)"

text \<open>
  The loop over the keys of the document's JSON that stores the docKey of each
  context. The fields are typed \<^verbatim>\<open>string | null\<close>; a null stored in \<^verbatim>\<open>docKeys\<close> is
  falsy wherever the module reads it and is modelled as no entry (an array,
  which the type of the field excludes, is treated like null).
\<close>

definition set_docKeys_of_contexts :: "jsobj \<Rightarrow> (ThoughtId \<rightharpoonup> string) \<Rightarrow> (ThoughtId \<rightharpoonup> string)" where
  "set_docKeys_of_contexts lexemeRaw dk =
     fold (\<lambda>key m.
             case cxid_of_key key of
               None \<Rightarrow> m
             | Some cxid \<Rightarrow>
                 (case map_of lexemeRaw key of
                    Some (JStr docKey) \<Rightarrow> m(cxid \<mapsto> docKey)
                  | _ \<Rightarrow> m(cxid := None)))
       (map fst lexemeRaw) dk"

text \<open>
  The end of the fresh branch: read the lexeme, store the docKeys of its
  contexts, deallocate unless retained, return the lexeme.
\<close>

definition replicateLexeme_finish :: "string \<Rightarrow> nat \<Rightarrow> world \<Rightarrow> jsobj option \<times> world" where
  "replicateLexeme_finish key doc s =
     (let lexeme = getLexeme (doc_at s doc);
          lexemeRaw = (case doc_at s doc of None \<Rightarrow> [] | Some d \<Rightarrow> ymap_root_toJSON d);
          s1 = s\<lparr>docKeys := set_docKeys_of_contexts lexemeRaw (docKeys s)\<rparr>
      in (lexeme, tryDeallocateLexeme key s1))"

text \<open>The fresh branch after \<^verbatim>\<open>await idbSynced\<close>, in the foreground.\<close>

definition replicateLexeme_foreground_resume :: "string \<Rightarrow> nat \<Rightarrow> world \<Rightarrow> jsobj option \<times> world" where
  "replicateLexeme_foreground_resume key doc s = replicateLexeme_finish key doc (observe_root doc s)"

text \<open>
  The fresh branch in the background, after \<^verbatim>\<open>await websocketSynced\<close> and after
  the application has answered \<^verbatim>\<open>isLexemeLoaded\<close> with \<open>loaded\<close>.
\<close>

definition replicateLexeme_background_resume ::
  "string \<Rightarrow> nat \<Rightarrow> bool \<Rightarrow> world \<Rightarrow> jsobj option \<times> world" where
  "replicateLexeme_background_resume key doc loaded s =
     replicateLexeme_finish key doc
       (if loaded
        then onLexemeChange doc
               (observe_root doc (s\<lparr>lexemeRetained := insert key (lexemeRetained s)\<rparr>))
        else s)"

text \<open>The \<^verbatim>\<open>.catch\<close> handler of the \<^verbatim>\<open>idbSynced\<close> of \<^verbatim>\<open>replicateLexeme\<close>.\<close>

definition replicateLexeme_idbSynced_catch ::
  "string \<Rightarrow> bool \<Rightarrow> js_error \<Rightarrow> world \<Rightarrow> unit settled \<times> world" where
  "replicateLexeme_idbSynced_catch key bg e s =
     (if is_AbortError e
      then (Resolved (),
            setTimeout (Retry_replicateLexeme key bg) IDB_ERROR_RETRY (freeLexeme_detached key s))
      else (Resolved (), emit (OnError (''Error loading lexeme '' @ key @ '': '' @ err_message e) e) s))"

subsection \<open>Writing a lexeme\<close>

text \<open>
  The first loop of the \<^verbatim>\<open>contexts\<close> branch: every context id of the new lexeme
  that the old one does not have is written as \<^verbatim>\<open>cx-<id>\<close> with its docKey; the
  loop throws at the first such id whose docKey is missing or empty.
\<close>

definition missing_docKey_message :: "ThoughtId \<Rightarrow> string" where
  "missing_docKey_message cxid =
     ''updateLexeme: Missing docKey for context '' @ cxid @ '' in Lexeme.''"

fun add_contexts ::
  "(ThoughtId \<rightharpoonup> string) \<Rightarrow> string list \<Rightarrow> ThoughtId list \<Rightarrow> jsobj \<Rightarrow> js_error option \<times> jsobj" where
  "add_contexts dk contextsOld [] m = (None, m)"
| "add_contexts dk contextsOld (cxid # rest) m =
     (if cxid \<in> set contextsOld then add_contexts dk contextsOld rest m
      else
        (case dk cxid of
           None \<Rightarrow> (Some (js_Error (missing_docKey_message cxid)), m)
         | Some docKey \<Rightarrow>
             if docKey = [] then (Some (js_Error (missing_docKey_message cxid)), m)
             else add_contexts dk contextsOld rest (AList.update (cx_key cxid) (JStr docKey) m)))"

text \<open>The second loop: contexts of the old lexeme that the new one lacks are deleted.\<close>

definition delete_contexts :: "string list \<Rightarrow> ThoughtId list \<Rightarrow> jsobj \<Rightarrow> jsobj" where
  "delete_contexts contextsNew old m =
     fold (\<lambda>cxid m'. if cxid \<in> set contextsNew then m' else AList.delete (cx_key cxid) m') old m"

text \<open>
  The TypeError of a call of \<^verbatim>\<open>forEach\<close> on a \<^verbatim>\<open>contexts\<close> that is not an array
  (\<open>None\<close> is \<^verbatim>\<open>undefined\<close>), with the message V8 gives for the expression.
\<close>

fun forEach_TypeError :: "string \<Rightarrow> jsval option \<Rightarrow> js_error" where
  "forEach_TypeError expr None =
     js_TypeError ''Cannot read properties of undefined (reading 'forEach')''"
| "forEach_TypeError expr (Some JNull) =
     js_TypeError ''Cannot read properties of null (reading 'forEach')''"
| "forEach_TypeError expr (Some v) = js_TypeError (expr @ ''.forEach is not a function'')"

text \<open>
  The loop over \<^verbatim>\<open>Object.keys(lexemeNew)\<close> inside the transaction, on the
  document's default map. Any key but \<^verbatim>\<open>contexts\<close> is compared with what the map
  holds under the same (unrenamed) key and written under the renamed key. A key
  that \<^verbatim>\<open>lexemeKeyToDb\<close> lacks is renamed to \<^verbatim>\<open>undefined\<close>: the value is set under
  the key \<^verbatim>\<open>undefined\<close>, and the last argument carries the last such value on to
  the end of the loop.
\<close>

fun updateLexeme_keys ::
  "(ThoughtId \<rightharpoonup> string) \<Rightarrow> jsobj \<Rightarrow> jsobj option \<Rightarrow> string list \<Rightarrow> jsobj \<Rightarrow> jsval option \<Rightarrow>
     js_error option \<times> jsobj \<times> jsval option" where
  "updateLexeme_keys dk lexemeNew lexemeOld [] m w = (None, m, w)"
| "updateLexeme_keys dk lexemeNew lexemeOld (key # keys) m w =
     (if key = ''contexts'' then
        (case map_of lexemeNew ''contexts'' of
           Some (JArr cxids) \<Rightarrow>
             (case add_contexts dk
                     (js_elements (case lexemeOld of None \<Rightarrow> None | Some old \<Rightarrow> map_of old ''contexts''))
                     cxids m of
                (Some e, m1) \<Rightarrow> (Some e, m1, w)
              | (None, m1) \<Rightarrow>
                  (case lexemeOld of
                     None \<Rightarrow> updateLexeme_keys dk lexemeNew lexemeOld keys m1 w
                   | Some old \<Rightarrow>
                       (case map_of old ''contexts'' of
                          Some (JArr oldcx) \<Rightarrow>
                            updateLexeme_keys dk lexemeNew lexemeOld keys
                              (delete_contexts cxids oldcx m1) w
                        | v \<Rightarrow> (Some (forEach_TypeError ''lexemeOld?.contexts'' v), m1, w))))
         | v \<Rightarrow> (Some (forEach_TypeError ''lexemeNew.contexts'' v), m, w))
      else
        (case map_of lexemeNew key of
           None \<Rightarrow> updateLexeme_keys dk lexemeNew lexemeOld keys m w
         | Some v \<Rightarrow>
             if js_strict_neq (Some v) (map_of m key)
             then (case lexemeKeyToDb key of
                     Some k \<Rightarrow> updateLexeme_keys dk lexemeNew lexemeOld keys (AList.update k v m) w
                   | None \<Rightarrow> updateLexeme_keys dk lexemeNew lexemeOld keys m (Some v))
             else updateLexeme_keys dk lexemeNew lexemeOld keys m w))"

text \<open>
  How \<^verbatim>\<open>updateLexeme\<close> stops: it waits for the replication it started, it has
  returned or thrown, or it waits for the \<^verbatim>\<open>whenSynced\<close> of the cached
  persistence (\<open>None\<close> when there is none).
\<close>

datatype ul_result =
    UL_AwaitReplicateLexeme rl_suspension
  | UL_Returned
  | UL_Thrown js_error
  | UL_AwaitIdbSynced "nat option"

text \<open>
  \<^verbatim>\<open>updateLexeme\<close> from the read of \<^verbatim>\<open>lexemeDocs.get(key)\<close> to its last \<^verbatim>\<open>await\<close>:
  nothing without a document; otherwise the transaction, and a notification
  when there is no old lexeme and the document already held one. A throw of the
  loop is taken to be the throw of the call. When the loop has ended and has set
  a value under the key \<^verbatim>\<open>undefined\<close>, the transaction throws a TypeError at its
  end: Yjs encodes the update for the update handlers that the providers of a
  cached document have put on it, and the key of the new item is not a string.
\<close>

definition updateLexeme_resume ::
  "string \<Rightarrow> jsobj \<Rightarrow> jsobj option \<Rightarrow> world \<Rightarrow> ul_result \<times> world" where
  "updateLexeme_resume key lexemeNew lexemeOld s =
     (case lexemeDocs s key of
        None \<Rightarrow> (UL_Returned, s)
      | Some d \<Rightarrow>
          (case doc_at s d of
             None \<Rightarrow> (UL_Returned, s)
           | Some doc \<Rightarrow>
               (let lexemeReplicated = getLexeme (Some doc);
                    (err, m1, w) = updateLexeme_keys (docKeys s) lexemeNew lexemeOld
                                     (map fst lexemeNew) (ymap_root doc) None;
                    doc1 = doc\<lparr>ymap_root := m1,
                               ymap_root_undefined :=
                                 (case w of None \<Rightarrow> ymap_root_undefined doc | Some v \<Rightarrow> Some v)\<rparr>;
                    s1 = s\<lparr>heap_docs := (heap_docs s)[d := doc1]\<rparr>
                in case err of
                     Some e \<Rightarrow>
                       (UL_Thrown e,
                        if err_name e = ''Error'' then emit (ConsoleError (err_message e)) s1 else s1)
                   | None \<Rightarrow>
                       (case w of
                          None \<Rightarrow> UL_AwaitIdbSynced (lexemePersistence s key)
                        | Some v \<Rightarrow>
                            UL_Thrown
                              (js_TypeError ''Cannot read properties of undefined (reading 'length')''),
                        if lexemeOld = None \<and> lexemeReplicated \<noteq> None
                        then onLexemeChange d s1 else s1))))"

text \<open>
  The call: without a cached document it first awaits a foreground
  \<^verbatim>\<open>replicateLexeme(key)\<close>. When that call has returned without waiting, the
  function goes on; otherwise it is resumed with \<open>updateLexeme_resume\<close> once the
  replication returns.
\<close>

definition updateLexeme ::
  "constants \<Rightarrow> string \<Rightarrow> jsobj \<Rightarrow> jsobj option \<Rightarrow> world \<Rightarrow> ul_result \<times> world" where
  "updateLexeme K key lexemeNew lexemeOld s =
     (if lexemeDocs s key = None then
        (case replicateLexeme K key False s of
           (RL_Returned v, s1) \<Rightarrow> updateLexeme_resume key lexemeNew lexemeOld s1
         | (w, s1) \<Rightarrow> (UL_AwaitReplicateLexeme w, s1))
      else updateLexeme_resume key lexemeNew lexemeOld s)"

text \<open>
  The \<^verbatim>\<open>.catch\<close> handler \<^verbatim>\<open>updateLexeme\<close> puts on \<^verbatim>\<open>whenSynced\<close>: a retry timer for an
  abort, else \<^verbatim>\<open>console.error\<close> and \<^verbatim>\<open>onError\<close> once the config is resolved.
\<close>

definition updateLexeme_idbSynced_catch ::
  "string \<Rightarrow> jsobj \<Rightarrow> jsobj option \<Rightarrow> js_error \<Rightarrow> world \<Rightarrow> unit settled \<times> world" where
  "updateLexeme_idbSynced_catch key lexemeNew lexemeOld e s =
     (if is_AbortError e
      then (Resolved (), setTimeout (Retry_updateLexeme key lexemeNew lexemeOld) IDB_ERROR_RETRY s)
      else (Resolved (),
            (case configCache s of
               Some cfg \<Rightarrow>
                 emit (OnError (''Error saving lexeme: '' @ err_message e) e)
                   (emit (ConsoleError (''Error saving lexeme: '' @ err_message e)) s)
             | None \<Rightarrow>
                 s\<lparr>detached := detached s @
                      [(Some ConfigPromise, Then_onError (''Error saving lexeme: '' @ err_message e) e)]\<rparr>)))"

subsection \<open>Deleting a lexeme\<close>

text \<open>
  \<^verbatim>\<open>deleteLexeme\<close> once the config is there: it reads the cached persistence and
  the old lexeme from whichever cached object still has the document, and
  clears the contexts of an old lexeme through \<^verbatim>\<open>updateLexeme\<close>, which it awaits.
\<close>

definition deleteLexeme_lexemeOld :: "string \<Rightarrow> world \<Rightarrow> jsobj option" where
  "deleteLexeme_lexemeOld key s =
     getLexeme
       (case lexemeDocs s key of
          Some d \<Rightarrow> doc_at s d
        | None \<Rightarrow>
            (case (case lexemePersistence s key of
                     None \<Rightarrow> None
                   | Some p \<Rightarrow> if p < length (heap_idb s) then Some (idb_doc (heap_idb s ! p)) else None) of
               Some d \<Rightarrow> doc_at s d
             | None \<Rightarrow>
                 (case lexemeWebsocketProvider s key of
                    None \<Rightarrow> None
                  | Some w \<Rightarrow>
                      if w < length (heap_ws s) then doc_at s (ws_document (heap_ws s ! w)) else None)))"

definition deleteLexeme_begin ::
  "constants \<Rightarrow> string \<Rightarrow> world \<Rightarrow> ul_result option \<times> world" where
  "deleteLexeme_begin K key s =
     (case deleteLexeme_lexemeOld key s of
        None \<Rightarrow> (None, s)
      | Some lexemeOld \<Rightarrow>
          (let (r, s1) = updateLexeme K key (AList.update ''contexts'' (JArr []) lexemeOld)
                           (Some lexemeOld) s
           in (Some r, s1)))"

text \<open>
  The \<^verbatim>\<open>try\<close> block up to the \<^verbatim>\<open>await\<close> inside \<^verbatim>\<open>freeLexeme\<close>, with the persistence
  read at the start of the call: the storage clear is started and the key is
  released.
\<close>

definition deleteLexeme_try ::
  "ThoughtspaceConfig \<Rightarrow> string \<Rightarrow> nat option \<Rightarrow> world \<Rightarrow> promise option \<times> world" where
  "deleteLexeme_try cfg key persistence s =
     freeLexeme_begin key
       (case persistence of
          Some p \<Rightarrow> emit (ClearData p) s
        | None \<Rightarrow> emit (ClearDocument (encodeLexemeDocumentName (cfg_tsid cfg) key)) s)"

text \<open>
  The rest: \<^verbatim>\<open>freeLexeme\<close> resumes with \<^verbatim>\<open>tryDeallocateLexeme\<close>, then the clear is
  awaited; \<open>cleared\<close> is how it settled. Only a \<^verbatim>\<open>NotFoundError\<close> is caught.
\<close>

definition deleteLexeme_finish ::
  "string \<Rightarrow> js_error option \<Rightarrow> world \<Rightarrow> unit settled \<times> world" where
  "deleteLexeme_finish key cleared s =
     (let s1 = tryDeallocateLexeme key s
      in case cleared of
           None \<Rightarrow> (Resolved (), s1)
         | Some e \<Rightarrow> if err_name e \<noteq> ''NotFoundError'' then (Rejected e, s1) else (Resolved (), s1))"

text \<open>
  \<^verbatim>\<open>deleteLexeme\<close> when nothing else runs between its segments. The result is
  \<open>None\<close> while the call still waits for a replication that \<^verbatim>\<open>updateLexeme\<close>
  started; a throw of \<^verbatim>\<open>updateLexeme\<close> is outside the \<^verbatim>\<open>try\<close> block and rejects
  the call. \<open>updateLexeme_completed\<close> tells whether the call gets to its
  \<^verbatim>\<open>try\<close> block: there was no old lexeme, or \<^verbatim>\<open>updateLexeme\<close> went through.
\<close>

fun updateLexeme_completed :: "ul_result option \<Rightarrow> bool" where
  "updateLexeme_completed None = True"
| "updateLexeme_completed (Some UL_Returned) = True"
| "updateLexeme_completed (Some (UL_AwaitIdbSynced p)) = True"
| "updateLexeme_completed (Some (UL_Thrown e)) = False"
| "updateLexeme_completed (Some (UL_AwaitReplicateLexeme w)) = False"

definition deleteLexeme ::
  "constants \<Rightarrow> ThoughtspaceConfig \<Rightarrow> string \<Rightarrow> js_error option \<Rightarrow> world \<Rightarrow> unit settled option \<times> world" where
  "deleteLexeme K cfg key cleared s =
     (let persistence = lexemePersistence s key
      in case deleteLexeme_begin K key s of
           (Some (UL_Thrown e), s1) \<Rightarrow> (Some (Rejected e), s1)
         | (Some (UL_AwaitReplicateLexeme w), s1) \<Rightarrow> (None, s1)
         | (r, s1) \<Rightarrow>
             (let (res, s2) = deleteLexeme_finish key cleared
                                (snd (deleteLexeme_try cfg key persistence s1))
              in (Some res, s2)))"

section \<open>The doclog's blocks and the timers\<close>

text \<open>
  The \<^verbatim>\<open>subdocs\<close> handler of \<^verbatim>\<open>init\<close> for one loaded block: outside test mode it
  creates the block's persistence; the websocket provider is created in the
  \<^verbatim>\<open>then\<close> handler of that persistence's \<^verbatim>\<open>whenSynced\<close>.
\<close>

definition doclog_subdoc_loaded :: "constants \<Rightarrow> nat \<Rightarrow> world \<Rightarrow> nat option \<times> world" where
  "doclog_subdoc_loaded K subdoc s =
     (if MODE K \<noteq> ''test''
      then (case doc_at s subdoc of
              None \<Rightarrow> (None, s)
            | Some d \<Rightarrow> (let (p, s1) = alloc_idb (guid d) subdoc s in (Some p, s1)))
      else (None, s))"

text \<open>The \<^verbatim>\<open>catch\<close> handler of the same chain reports every error.\<close>

definition doclog_subdoc_whenSynced_catch :: "js_error \<Rightarrow> world \<Rightarrow> world" where
  "doclog_subdoc_whenSynced_catch e s =
     emit (OnError (''Error loading doclog block: '' @ err_message e) e) s"

definition doclog_subdoc_whenSynced_then :: "string \<Rightarrow> nat \<Rightarrow> world \<Rightarrow> world" where
  "doclog_subdoc_whenSynced_then accessToken subdoc s =
     (case doc_at s subdoc of
        None \<Rightarrow> s
      | Some d \<Rightarrow> snd (alloc_ws (guid d) subdoc accessToken s))"

text \<open>
  What a detached call runs once the promise it waits for has settled, and
  what a timer runs when it fires: the first segment of the call it holds.
\<close>

definition run_continuation :: "continuation \<Rightarrow> world \<Rightarrow> world" where
  "run_continuation c s =
     (case c of
        Then_tryDeallocateThought docKey \<Rightarrow> tryDeallocateThought docKey s
      | Then_tryDeallocateLexeme key \<Rightarrow> tryDeallocateLexeme key s
      | Then_onUpdateThoughts merged \<Rightarrow> emit (OnUpdateThoughts merged False False True) s
      | Then_onError message e \<Rightarrow> emit (OnError message e) (emit (ConsoleError message) s))"


definition run_task :: "constants \<Rightarrow> task \<Rightarrow> world \<Rightarrow> world" where
  "run_task K t s =
     (case t of
        Retry_replicateChildren docKey opts \<Rightarrow> snd (replicateChildren K docKey opts s)
      | Retry_replicateLexeme key bg \<Rightarrow> snd (replicateLexeme K key bg s)
      | Retry_updateLexeme key lexemeNew lexemeOld \<Rightarrow> snd (updateLexeme K key lexemeNew lexemeOld s)
      | Throttle_flush \<Rightarrow> throttle_flush s
      | Dispatch_updateThoughts merged \<Rightarrow> dispatch_updateThoughts merged s)"

section \<open>Initial state and concurrent calls\<close>

text \<open>
  The module variables as the module's top level leaves them: empty caches, and
  \<^verbatim>\<open>docKeys\<close> mapping the root contexts and the em context to \<^verbatim>\<open>ROOT_PARENT_ID\<close>.
\<close>

definition initial_world :: "constants \<Rightarrow> world" where
  "initial_world K =
     \<lparr>thoughtDocs = Map.empty, thoughtPersistence = Map.empty, thoughtRetained = {},
      thoughtWebsocketProvider = Map.empty, thoughtIDBSynced = Map.empty,
      thoughtWebsocketSynced = Map.empty,
      lexemeDocs = Map.empty, lexemePersistence = Map.empty, lexemeRetained = {},
      lexemeWebsocketProvider = Map.empty, lexemeIDBSynced = Map.empty,
      lexemeWebsocketSynced = Map.empty,
      docKeys = map_of (map (\<lambda>i. (i, ROOT_PARENT_ID K)) (ROOT_CONTEXTS K @ [EM_TOKEN K])),
      configCache = None, heap_docs = [], heap_idb = [], heap_ws = [], timers = [],
      detached = [], throttle_queue = [], effects = []\<rparr>"

text \<open>
  What \<^verbatim>\<open>init\<close> writes to the variables the operations read: the docKeys of the
  cursor path (each id under its predecessor, the first under \<^verbatim>\<open>HOME_TOKEN\<close>) and
  the config cache.
\<close>

fun seed_cursor :: "string \<Rightarrow> ThoughtId list \<Rightarrow> (ThoughtId \<rightharpoonup> string) \<Rightarrow> (ThoughtId \<rightharpoonup> string)" where
  "seed_cursor prev [] dk = dk"
| "seed_cursor prev (i # rest) dk = seed_cursor i rest (dk(i \<mapsto> prev))"

definition init_module_state ::
  "constants \<Rightarrow> ThoughtspaceConfig \<Rightarrow> ThoughtId list option \<Rightarrow> world \<Rightarrow> world" where
  "init_module_state K cfg cursor s =
     s\<lparr>docKeys := (case cursor of
                     None \<Rightarrow> docKeys s
                   | Some c \<Rightarrow> seed_cursor (HOME_TOKEN K) c (docKeys s)),
        configCache := Some cfg\<rparr>"

text \<open>
  Concurrent calls for one key: the calls are made one after the other and each
  runs to its first \<^verbatim>\<open>await\<close> on a sync promise before any of them is resumed.
  The result lists where each call stopped. The calls of \<^verbatim>\<open>replicateChildren\<close> are
  taken from the point where the config is there; those of \<^verbatim>\<open>replicateLexeme\<close>
  from their first statement, which returns for a special context.
\<close>

fun replicateChildren_calls ::
  "constants \<Rightarrow> ThoughtspaceConfig \<Rightarrow> string \<Rightarrow> rc_options list \<Rightarrow> world \<Rightarrow> rc_suspension list \<times> world" where
  "replicateChildren_calls K cfg docKey [] s = ([], s)"
| "replicateChildren_calls K cfg docKey (opts # rest) s =
     (let (w, s1) = replicateChildren_main K cfg docKey opts s;
          (ws, s2) = replicateChildren_calls K cfg docKey rest s1
      in (w # ws, s2))"

fun replicateLexeme_calls ::
  "constants \<Rightarrow> string \<Rightarrow> bool list \<Rightarrow> world \<Rightarrow> rl_suspension list \<times> world" where
  "replicateLexeme_calls K key [] s = ([], s)"
| "replicateLexeme_calls K key (bg # rest) s =
     (let (w, s1) = replicateLexeme K key bg s;
          (ws, s2) = replicateLexeme_calls K key rest s1
      in (w # ws, s2))"

text \<open>Whether a call stopped in the cached branch, on a given document.\<close>

fun rc_cached_on :: "nat \<Rightarrow> rc_suspension \<Rightarrow> bool" where
  "rc_cached_on d (RC_AwaitCached d' p) = (d' = d)"
| "rc_cached_on d w = False"

fun rl_cached_on :: "nat \<Rightarrow> rl_suspension \<Rightarrow> bool" where
  "rl_cached_on d (RL_AwaitCached d' p) = (d' = d)"
| "rl_cached_on d w = False"

text \<open>Example values for the imported constants and the config, and a started module.\<close>

definition example_constants :: constants where
  "example_constants =
     \<lparr>HOME_TOKEN = ''__ROOT__'', EM_TOKEN = ''__EM__'', ABSOLUTE_TOKEN = ''__ABSOLUTE__'',
      ROOT_PARENT_ID = ''__ROOT_PARENT_ID__'', ROOT_CONTEXTS = [''__ROOT__'', ''__ABSOLUTE__''],
      MODE = ''production''\<rparr>"

definition example_config :: ThoughtspaceConfig where
  "example_config = \<lparr>cfg_accessToken = ''token'', cfg_tsid = ''ts''\<rparr>"

definition started_world :: world where
  "started_world = init_module_state example_constants example_config None (initial_world example_constants)"

text \<open>A resident thought document, an edit of its thought, and lexemes to write.\<close>

definition example_thought_doc :: YDoc where
  "example_thought_doc =
     \<lparr>guid = ''ts/thought/p'', ymap_thought = [(''docKey'', JStr ''__ROOT__'')],
      ymap_children =
        [(''a'', [(''c'', TStr ''t0''), (''l'', TStr ''t0''), (''m'', TMap []), (''p'', TStr ''p''),
                  (''r'', TNum 0), (''u'', TStr ''me''), (''v'', TStr ''old'')])],
      ymap_root = [], ymap_root_undefined = None, destroyed = False, root_observers = 0\<rparr>"

definition example_thought_world :: world where
  "example_thought_world =
     started_world
       \<lparr>thoughtDocs := [''p'' \<mapsto> 0], thoughtPersistence := [''p'' \<mapsto> 0],
        thoughtRetained := {''p''}, thoughtIDBSynced := [''p'' \<mapsto> IdbSyncedOf 0],
        docKeys := (docKeys started_world)(''p'' \<mapsto> ''__ROOT__'', ''a'' \<mapsto> ''p''),
        heap_docs := [example_thought_doc],
        heap_idb := [\<lparr>idb_name = ''ts/thought/p'', idb_doc = 0, idb_synced = True\<rparr>]\<rparr>"

definition example_thought_edit :: Thought where
  "example_thought_edit =
     \<lparr>t_childrenMap = Some (TMap []), t_created = Some (TStr ''t0''), t_id = ''a'',
      t_lastUpdated = Some (TStr ''t1''), t_parentId = Some (TStr ''p''), t_rank = Some (TNum 0),
      t_updatedBy = Some (TStr ''me''), t_value = Some (TStr ''new''), t_archived = None\<rparr>"

text \<open>
  A Lexeme object with its keys in the order \<^verbatim>\<open>contexts\<close>, \<^verbatim>\<open>created\<close>,
  \<^verbatim>\<open>lastUpdated\<close>, \<^verbatim>\<open>updatedBy\<close>, and the record a document holds for it
  (\<^verbatim>\<open>LexemeDb\<close>): one \<^verbatim>\<open>cx-\<close> field per context with the docKey of that context,
  then \<^verbatim>\<open>c\<close>, \<^verbatim>\<open>l\<close> and \<^verbatim>\<open>u\<close>.
\<close>

definition lexeme_obj :: "ThoughtId list \<Rightarrow> string \<Rightarrow> string \<Rightarrow> string \<Rightarrow> jsobj" where
  "lexeme_obj cxids a b u =
     [(''contexts'', JArr cxids), (''created'', JStr a), (''lastUpdated'', JStr b),
      (''updatedBy'', JStr u)]"

definition cx_fields :: "(ThoughtId \<rightharpoonup> string) \<Rightarrow> ThoughtId list \<Rightarrow> jsobj" where
  "cx_fields dk cxids = map (\<lambda>c. (cx_key c, JStr (the (dk c)))) cxids"

definition lexeme_db ::
  "(ThoughtId \<rightharpoonup> string) \<Rightarrow> ThoughtId list \<Rightarrow> string \<Rightarrow> string \<Rightarrow> string \<Rightarrow> jsobj" where
  "lexeme_db dk cxids a b u =
     cx_fields dk cxids @ [(''c'', JStr a), (''l'', JStr b), (''u'', JStr u)]"

definition example_lexeme :: "ThoughtId \<Rightarrow> jsobj" where
  "example_lexeme cxid = lexeme_obj [cxid] ''t0'' ''t1'' ''me''"

definition example_lexeme_world :: world where
  "example_lexeme_world =
     snd (replicateLexeme_main example_constants example_config ''apple'' False started_world)"

text \<open>The same world with the fields \<open>db\<close> in the default map of the lexeme's document.\<close>

definition example_stored_lexeme_world :: "jsobj \<Rightarrow> world" where
  "example_stored_lexeme_world db =
     example_lexeme_world
       \<lparr>heap_docs := map (\<lambda>d. d\<lparr>ymap_root := db\<rparr>) (heap_docs example_lexeme_world)\<rparr>"

definition lexeme_batch :: "string \<Rightarrow> jsobj option \<Rightarrow> PushBatch" where
  "lexeme_batch key v = \<lparr>thoughtIndexUpdates = [], lexemeIndexUpdates = [(key, v)], lexemeIndexUpdatesOld = []\<rparr>"

section \<open>Properties\<close>

subsection \<open>Special contexts are never replicated\<close>

text \<open>
  Claim C10. For a key equal to \<^verbatim>\<open>HOME_TOKEN\<close>, \<^verbatim>\<open>EM_TOKEN\<close> or \<^verbatim>\<open>ABSOLUTE_TOKEN\<close>,
  \<^verbatim>\<open>replicateLexeme\<close> returns \<^verbatim>\<open>undefined\<close> at once and leaves the whole module state
  as it was: no document, persistence or websocket provider is created, and
  neither the lexeme caches nor the retained set change.
\<close>

theorem replicateLexeme_special_context:
  "key = HOME_TOKEN K \<or> key = EM_TOKEN K \<or> key = ABSOLUTE_TOKEN K \<Longrightarrow>
   replicateLexeme K key bg s = (RL_Returned None, s)"
  by (simp add: replicateLexeme_def)

theorem replicateLexeme_special_context_witness:
  "(''__EM__'' = HOME_TOKEN example_constants \<or> ''__EM__'' = EM_TOKEN example_constants
      \<or> ''__EM__'' = ABSOLUTE_TOKEN example_constants)
   \<and> replicateLexeme example_constants ''__EM__'' True started_world = (RL_Returned None, started_world)"
  using replicateLexeme_special_context [of "''__EM__''" example_constants True started_world]
  by (simp add: example_constants_def)

subsection \<open>Concurrent replication of one key\<close>

text \<open>
  A call that finds the document cached takes the cached branch: it creates no
  object and leaves the five caches of the key alone.
\<close>

lemma replicateChildren_main_cached:
  assumes "thoughtDocs s k = Some d"
  shows "fst (replicateChildren_main K cfg k opts s) =
           RC_AwaitCached d (if background opts \<and> remote opts then thoughtWebsocketSynced s k
                             else thoughtIDBSynced s k)"
    and "heap_docs (snd (replicateChildren_main K cfg k opts s)) = heap_docs s"
    and "heap_idb (snd (replicateChildren_main K cfg k opts s)) = heap_idb s"
    and "heap_ws (snd (replicateChildren_main K cfg k opts s)) = heap_ws s"
    and "thoughtDocs (snd (replicateChildren_main K cfg k opts s)) = thoughtDocs s"
    and "thoughtPersistence (snd (replicateChildren_main K cfg k opts s)) = thoughtPersistence s"
    and "thoughtIDBSynced (snd (replicateChildren_main K cfg k opts s)) = thoughtIDBSynced s"
    and "thoughtWebsocketProvider (snd (replicateChildren_main K cfg k opts s)) = thoughtWebsocketProvider s"
    and "thoughtWebsocketSynced (snd (replicateChildren_main K cfg k opts s)) = thoughtWebsocketSynced s"
  using assms by (simp_all add: replicateChildren_main_def Let_def emit_def)

lemma replicateChildren_calls_cached:
  "thoughtDocs s k = Some d \<Longrightarrow>
   list_all (rc_cached_on d) (fst (replicateChildren_calls K cfg k rest s))
   \<and> heap_docs (snd (replicateChildren_calls K cfg k rest s)) = heap_docs s
   \<and> heap_idb (snd (replicateChildren_calls K cfg k rest s)) = heap_idb s
   \<and> heap_ws (snd (replicateChildren_calls K cfg k rest s)) = heap_ws s
   \<and> thoughtDocs (snd (replicateChildren_calls K cfg k rest s)) = thoughtDocs s
   \<and> thoughtPersistence (snd (replicateChildren_calls K cfg k rest s)) = thoughtPersistence s
   \<and> thoughtIDBSynced (snd (replicateChildren_calls K cfg k rest s)) = thoughtIDBSynced s
   \<and> thoughtWebsocketProvider (snd (replicateChildren_calls K cfg k rest s)) = thoughtWebsocketProvider s
   \<and> thoughtWebsocketSynced (snd (replicateChildren_calls K cfg k rest s)) = thoughtWebsocketSynced s"
proof (induction rest arbitrary: s)
  case Nil
  then show ?case by simp
next
  case (Cons opts rest)
  let ?s1 = "snd (replicateChildren_main K cfg k opts s)"
  have c: "thoughtDocs ?s1 k = Some d"
    using Cons.prems by (simp add: replicateChildren_main_cached)
  from Cons.IH [OF c] Cons.prems show ?case
    by (simp add: split_def Let_def replicateChildren_main_cached)
qed

lemma replicateChildren_main_fresh:
  assumes "thoughtDocs s k = None" and "MODE K \<noteq> ''test''"
  shows "replicateChildren_main K cfg k opts s =
     (RC_AwaitFresh (length (heap_docs s)) (length (heap_idb s))
        (if remote opts then Some (length (heap_ws s)) else None),
      s\<lparr>heap_docs := heap_docs s @ [new_YDoc (encodeThoughtDocumentName (cfg_tsid cfg) k)],
        effects := (if onDoc opts then effects s @ [OnDoc (length (heap_docs s))] else effects s),
        thoughtRetained := (if background opts then thoughtRetained s else insert k (thoughtRetained s)),
        heap_idb := heap_idb s @
          [\<lparr>idb_name = encodeThoughtDocumentName (cfg_tsid cfg) k, idb_doc = length (heap_docs s),
            idb_synced = False\<rparr>],
        heap_ws := heap_ws s @
          (if remote opts
           then [\<lparr>ws_name = encodeThoughtDocumentName (cfg_tsid cfg) k,
                  ws_document = length (heap_docs s), ws_token = cfg_accessToken cfg,
                  ws_destroyed = False\<rparr>]
           else []),
        thoughtDocs := (thoughtDocs s)(k \<mapsto> length (heap_docs s)),
        thoughtIDBSynced := (thoughtIDBSynced s)(k \<mapsto> IdbSyncedOf (length (heap_idb s))),
        thoughtPersistence := (thoughtPersistence s)(k \<mapsto> length (heap_idb s)),
        thoughtWebsocketProvider :=
          (if remote opts then (thoughtWebsocketProvider s)(k \<mapsto> length (heap_ws s))
           else thoughtWebsocketProvider s),
        thoughtWebsocketSynced :=
          (if remote opts then (thoughtWebsocketSynced s)(k \<mapsto> WebsocketSyncedOf (length (heap_ws s)))
           else thoughtWebsocketSynced s)\<rparr>)"
  using assms
  by (simp add: replicateChildren_main_def Let_def alloc_doc_def alloc_idb_def alloc_ws_def emit_def)

lemma replicateLexeme_main_cached:
  assumes "lexemeDocs s k = Some d"
  shows "fst (replicateLexeme_main K cfg k bg s) =
           RL_AwaitCached d (if bg then lexemeWebsocketSynced s k else lexemeIDBSynced s k)"
    and "heap_docs (snd (replicateLexeme_main K cfg k bg s)) = heap_docs s"
    and "heap_idb (snd (replicateLexeme_main K cfg k bg s)) = heap_idb s"
    and "heap_ws (snd (replicateLexeme_main K cfg k bg s)) = heap_ws s"
    and "lexemeDocs (snd (replicateLexeme_main K cfg k bg s)) = lexemeDocs s"
    and "lexemePersistence (snd (replicateLexeme_main K cfg k bg s)) = lexemePersistence s"
    and "lexemeIDBSynced (snd (replicateLexeme_main K cfg k bg s)) = lexemeIDBSynced s"
    and "lexemeWebsocketProvider (snd (replicateLexeme_main K cfg k bg s)) = lexemeWebsocketProvider s"
    and "lexemeWebsocketSynced (snd (replicateLexeme_main K cfg k bg s)) = lexemeWebsocketSynced s"
    and "configCache (snd (replicateLexeme_main K cfg k bg s)) = configCache s"
  using assms by (simp_all add: replicateLexeme_main_def Let_def)

lemma replicateLexeme_not_special:
  "configCache s = Some cfg \<Longrightarrow> k \<noteq> HOME_TOKEN K \<Longrightarrow> k \<noteq> EM_TOKEN K \<Longrightarrow> k \<noteq> ABSOLUTE_TOKEN K \<Longrightarrow>
   replicateLexeme K k bg s = replicateLexeme_main K cfg k bg s"
  by (simp add: replicateLexeme_def)

lemma replicateLexeme_calls_cached:
  "lexemeDocs s k = Some d \<Longrightarrow> configCache s = Some cfg \<Longrightarrow>
   k \<noteq> HOME_TOKEN K \<Longrightarrow> k \<noteq> EM_TOKEN K \<Longrightarrow> k \<noteq> ABSOLUTE_TOKEN K \<Longrightarrow>
   list_all (rl_cached_on d) (fst (replicateLexeme_calls K k rest s))
   \<and> heap_docs (snd (replicateLexeme_calls K k rest s)) = heap_docs s
   \<and> heap_idb (snd (replicateLexeme_calls K k rest s)) = heap_idb s
   \<and> heap_ws (snd (replicateLexeme_calls K k rest s)) = heap_ws s
   \<and> lexemeDocs (snd (replicateLexeme_calls K k rest s)) = lexemeDocs s
   \<and> lexemePersistence (snd (replicateLexeme_calls K k rest s)) = lexemePersistence s
   \<and> lexemeIDBSynced (snd (replicateLexeme_calls K k rest s)) = lexemeIDBSynced s
   \<and> lexemeWebsocketProvider (snd (replicateLexeme_calls K k rest s)) = lexemeWebsocketProvider s
   \<and> lexemeWebsocketSynced (snd (replicateLexeme_calls K k rest s)) = lexemeWebsocketSynced s"
proof (induction rest arbitrary: s)
  case Nil
  then show ?case by simp
next
  case (Cons bg rest)
  let ?s1 = "snd (replicateLexeme_main K cfg k bg s)"
  have q: "replicateLexeme K k bg s = replicateLexeme_main K cfg k bg s"
    using Cons.prems by (simp add: replicateLexeme_not_special)
  have c: "lexemeDocs ?s1 k = Some d" "configCache ?s1 = Some cfg"
    using Cons.prems by (simp_all add: replicateLexeme_main_cached)
  from Cons.IH [OF c Cons.prems(3) Cons.prems(4) Cons.prems(5)] Cons.prems show ?case
    by (simp add: q split_def Let_def replicateLexeme_main_cached)
qed

lemma replicateLexeme_calls_special:
  "k = HOME_TOKEN K \<or> k = EM_TOKEN K \<or> k = ABSOLUTE_TOKEN K \<Longrightarrow>
   replicateLexeme_calls K k bgs s = (map (\<lambda>bg. RL_Returned None) bgs, s)"
  by (induction bgs) (simp_all add: replicateLexeme_def)

lemma replicateLexeme_main_fresh:
  assumes "lexemeDocs s k = None" and "MODE K \<noteq> ''test''"
  shows "replicateLexeme_main K cfg k bg s =
     (RL_AwaitFresh (length (heap_docs s)) (length (heap_idb s)) (length (heap_ws s)),
      s\<lparr>heap_docs := heap_docs s @ [new_YDoc (encodeLexemeDocumentName (cfg_tsid cfg) k)],
        lexemeRetained := (if bg then lexemeRetained s else insert k (lexemeRetained s)),
        heap_idb := heap_idb s @
          [\<lparr>idb_name = encodeLexemeDocumentName (cfg_tsid cfg) k, idb_doc = length (heap_docs s),
            idb_synced = False\<rparr>],
        heap_ws := heap_ws s @
          [\<lparr>ws_name = encodeLexemeDocumentName (cfg_tsid cfg) k,
             ws_document = length (heap_docs s), ws_token = cfg_accessToken cfg,
             ws_destroyed = False\<rparr>],
        lexemeDocs := (lexemeDocs s)(k \<mapsto> length (heap_docs s)),
        lexemeIDBSynced := (lexemeIDBSynced s)(k \<mapsto> IdbSyncedOf (length (heap_idb s))),
        lexemePersistence := (lexemePersistence s)(k \<mapsto> length (heap_idb s)),
        lexemeWebsocketSynced := (lexemeWebsocketSynced s)(k \<mapsto> WebsocketSyncedOf (length (heap_ws s))),
        lexemeWebsocketProvider := (lexemeWebsocketProvider s)(k \<mapsto> length (heap_ws s))\<rparr>)"
  using assms
  by (simp add: replicateLexeme_main_def Let_def alloc_doc_def alloc_idb_def alloc_ws_def)

text \<open>
  Claim C1, amended. Outside test mode, the concurrent calls
  \<^verbatim>\<open>replicateChildren(k)\<close> for a key with no cached document, and the concurrent
  calls \<^verbatim>\<open>replicateLexeme(k)\<close> for such a key that is none of the three special
  contexts, create exactly one document and exactly one persistence for \<open>k\<close>,
  and one websocket provider exactly when the first \<^verbatim>\<open>replicateChildren\<close> caller
  asks for remote sync (a replicated lexeme always gets one). The first call
  caches the document, the persistence, its \<^verbatim>\<open>idbSynced\<close> and, with a provider,
  the provider and its \<^verbatim>\<open>websocketSynced\<close> before it waits for a sync promise;
  every later call stops in the cached branch on that same document and creates
  nothing. For a special context every call of \<^verbatim>\<open>replicateLexeme\<close> returns
  \<^verbatim>\<open>undefined\<close> and nothing is created or cached.
\<close>

theorem concurrent_replication_creates_one_shard:
  assumes "MODE K \<noteq> ''test''"
  shows
   "(thoughtDocs s k = None \<longrightarrow>
       (case replicateChildren_calls K cfg k (opts # rest) s of
          (ws, s') \<Rightarrow>
            heap_docs s' = heap_docs s @ [new_YDoc (encodeThoughtDocumentName (cfg_tsid cfg) k)]
          \<and> heap_idb s' = heap_idb s @
               [\<lparr>idb_name = encodeThoughtDocumentName (cfg_tsid cfg) k,
                 idb_doc = length (heap_docs s), idb_synced = False\<rparr>]
          \<and> heap_ws s' = heap_ws s @
               (if remote opts
                then [\<lparr>ws_name = encodeThoughtDocumentName (cfg_tsid cfg) k,
                       ws_document = length (heap_docs s), ws_token = cfg_accessToken cfg,
                       ws_destroyed = False\<rparr>]
                else [])
          \<and> thoughtDocs s' k = Some (length (heap_docs s))
          \<and> thoughtPersistence s' k = Some (length (heap_idb s))
          \<and> thoughtIDBSynced s' k = Some (IdbSyncedOf (length (heap_idb s)))
          \<and> (remote opts \<longrightarrow>
               thoughtWebsocketProvider s' k = Some (length (heap_ws s))
             \<and> thoughtWebsocketSynced s' k = Some (WebsocketSyncedOf (length (heap_ws s))))
          \<and> hd ws = RC_AwaitFresh (length (heap_docs s)) (length (heap_idb s))
                       (if remote opts then Some (length (heap_ws s)) else None)
          \<and> list_all (rc_cached_on (length (heap_docs s))) (tl ws)))
    \<and> (lexemeDocs s k = None \<and> configCache s = Some cfg
        \<and> k \<noteq> HOME_TOKEN K \<and> k \<noteq> EM_TOKEN K \<and> k \<noteq> ABSOLUTE_TOKEN K \<longrightarrow>
       (case replicateLexeme_calls K k (bg # bgs) s of
          (ws, s') \<Rightarrow>
            heap_docs s' = heap_docs s @ [new_YDoc (encodeLexemeDocumentName (cfg_tsid cfg) k)]
          \<and> heap_idb s' = heap_idb s @
               [\<lparr>idb_name = encodeLexemeDocumentName (cfg_tsid cfg) k,
                 idb_doc = length (heap_docs s), idb_synced = False\<rparr>]
          \<and> heap_ws s' = heap_ws s @
               [\<lparr>ws_name = encodeLexemeDocumentName (cfg_tsid cfg) k,
                  ws_document = length (heap_docs s), ws_token = cfg_accessToken cfg,
                  ws_destroyed = False\<rparr>]
          \<and> lexemeDocs s' k = Some (length (heap_docs s))
          \<and> lexemePersistence s' k = Some (length (heap_idb s))
          \<and> lexemeIDBSynced s' k = Some (IdbSyncedOf (length (heap_idb s)))
          \<and> lexemeWebsocketProvider s' k = Some (length (heap_ws s))
          \<and> lexemeWebsocketSynced s' k = Some (WebsocketSyncedOf (length (heap_ws s)))
          \<and> hd ws = RL_AwaitFresh (length (heap_docs s)) (length (heap_idb s)) (length (heap_ws s))
          \<and> list_all (rl_cached_on (length (heap_docs s))) (tl ws)))
    \<and> (k = HOME_TOKEN K \<or> k = EM_TOKEN K \<or> k = ABSOLUTE_TOKEN K \<longrightarrow>
       replicateLexeme_calls K k (bg # bgs) s = (map (\<lambda>b. RL_Returned None) (bg # bgs), s))"
proof (intro conjI impI)
  assume n: "thoughtDocs s k = None"
  define s1 where "s1 = snd (replicateChildren_main K cfg k opts s)"
  note f = replicateChildren_main_fresh [OF n assms, of cfg opts]
  have w: "fst (replicateChildren_main K cfg k opts s) =
             RC_AwaitFresh (length (heap_docs s)) (length (heap_idb s))
               (if remote opts then Some (length (heap_ws s)) else None)"
    by (simp add: f)
  have h: "heap_docs s1 = heap_docs s @ [new_YDoc (encodeThoughtDocumentName (cfg_tsid cfg) k)]"
    "heap_idb s1 = heap_idb s @
       [\<lparr>idb_name = encodeThoughtDocumentName (cfg_tsid cfg) k,
         idb_doc = length (heap_docs s), idb_synced = False\<rparr>]"
    "heap_ws s1 = heap_ws s @
       (if remote opts
        then [\<lparr>ws_name = encodeThoughtDocumentName (cfg_tsid cfg) k,
               ws_document = length (heap_docs s), ws_token = cfg_accessToken cfg,
               ws_destroyed = False\<rparr>]
        else [])"
    "thoughtDocs s1 k = Some (length (heap_docs s))"
    "thoughtPersistence s1 k = Some (length (heap_idb s))"
    "thoughtIDBSynced s1 k = Some (IdbSyncedOf (length (heap_idb s)))"
    "remote opts \<longrightarrow>
       thoughtWebsocketProvider s1 k = Some (length (heap_ws s))
     \<and> thoughtWebsocketSynced s1 k = Some (WebsocketSyncedOf (length (heap_ws s)))"
    by (simp_all add: s1_def f)
  note r = replicateChildren_calls_cached [OF h(4), of K cfg rest]
  have e: "replicateChildren_calls K cfg k (opts # rest) s =
             (fst (replicateChildren_main K cfg k opts s) # fst (replicateChildren_calls K cfg k rest s1),
              snd (replicateChildren_calls K cfg k rest s1))"
    by (simp add: split_def Let_def s1_def)
  show "case replicateChildren_calls K cfg k (opts # rest) s of
          (ws, s') \<Rightarrow>
            heap_docs s' = heap_docs s @ [new_YDoc (encodeThoughtDocumentName (cfg_tsid cfg) k)]
          \<and> heap_idb s' = heap_idb s @
               [\<lparr>idb_name = encodeThoughtDocumentName (cfg_tsid cfg) k,
                 idb_doc = length (heap_docs s), idb_synced = False\<rparr>]
          \<and> heap_ws s' = heap_ws s @
               (if remote opts
                then [\<lparr>ws_name = encodeThoughtDocumentName (cfg_tsid cfg) k,
                       ws_document = length (heap_docs s), ws_token = cfg_accessToken cfg,
                       ws_destroyed = False\<rparr>]
                else [])
          \<and> thoughtDocs s' k = Some (length (heap_docs s))
          \<and> thoughtPersistence s' k = Some (length (heap_idb s))
          \<and> thoughtIDBSynced s' k = Some (IdbSyncedOf (length (heap_idb s)))
          \<and> (remote opts \<longrightarrow>
               thoughtWebsocketProvider s' k = Some (length (heap_ws s))
             \<and> thoughtWebsocketSynced s' k = Some (WebsocketSyncedOf (length (heap_ws s))))
          \<and> hd ws = RC_AwaitFresh (length (heap_docs s)) (length (heap_idb s))
                       (if remote opts then Some (length (heap_ws s)) else None)
          \<and> list_all (rc_cached_on (length (heap_docs s))) (tl ws)"
    unfolding e using r h w by simp
next
  assume a: "lexemeDocs s k = None \<and> configCache s = Some cfg
        \<and> k \<noteq> HOME_TOKEN K \<and> k \<noteq> EM_TOKEN K \<and> k \<noteq> ABSOLUTE_TOKEN K"
  then have n: "lexemeDocs s k = None" and g: "configCache s = Some cfg"
    and t: "k \<noteq> HOME_TOKEN K" "k \<noteq> EM_TOKEN K" "k \<noteq> ABSOLUTE_TOKEN K"
    by simp_all
  define s1 where "s1 = snd (replicateLexeme_main K cfg k bg s)"
  note f = replicateLexeme_main_fresh [OF n assms, of cfg bg]
  have q: "replicateLexeme K k bg s = replicateLexeme_main K cfg k bg s"
    using g t by (rule replicateLexeme_not_special)
  have w: "fst (replicateLexeme_main K cfg k bg s) =
             RL_AwaitFresh (length (heap_docs s)) (length (heap_idb s)) (length (heap_ws s))"
    by (simp add: f)
  have h: "heap_docs s1 = heap_docs s @ [new_YDoc (encodeLexemeDocumentName (cfg_tsid cfg) k)]"
    "heap_idb s1 = heap_idb s @
       [\<lparr>idb_name = encodeLexemeDocumentName (cfg_tsid cfg) k,
         idb_doc = length (heap_docs s), idb_synced = False\<rparr>]"
    "heap_ws s1 = heap_ws s @
       [\<lparr>ws_name = encodeLexemeDocumentName (cfg_tsid cfg) k,
          ws_document = length (heap_docs s), ws_token = cfg_accessToken cfg,
          ws_destroyed = False\<rparr>]"
    "lexemeDocs s1 k = Some (length (heap_docs s))"
    "lexemePersistence s1 k = Some (length (heap_idb s))"
    "lexemeIDBSynced s1 k = Some (IdbSyncedOf (length (heap_idb s)))"
    "lexemeWebsocketProvider s1 k = Some (length (heap_ws s))"
    "lexemeWebsocketSynced s1 k = Some (WebsocketSyncedOf (length (heap_ws s)))"
    by (simp_all add: s1_def f)
  have g1: "configCache s1 = Some cfg"
    using g by (simp add: s1_def f)
  note r = replicateLexeme_calls_cached [OF h(4) g1 t, of bgs]
  have e: "replicateLexeme_calls K k (bg # bgs) s =
             (fst (replicateLexeme_main K cfg k bg s) # fst (replicateLexeme_calls K k bgs s1),
              snd (replicateLexeme_calls K k bgs s1))"
    by (simp add: q split_def Let_def s1_def)
  show "case replicateLexeme_calls K k (bg # bgs) s of
          (ws, s') \<Rightarrow>
            heap_docs s' = heap_docs s @ [new_YDoc (encodeLexemeDocumentName (cfg_tsid cfg) k)]
          \<and> heap_idb s' = heap_idb s @
               [\<lparr>idb_name = encodeLexemeDocumentName (cfg_tsid cfg) k,
                 idb_doc = length (heap_docs s), idb_synced = False\<rparr>]
          \<and> heap_ws s' = heap_ws s @
               [\<lparr>ws_name = encodeLexemeDocumentName (cfg_tsid cfg) k,
                  ws_document = length (heap_docs s), ws_token = cfg_accessToken cfg,
                  ws_destroyed = False\<rparr>]
          \<and> lexemeDocs s' k = Some (length (heap_docs s))
          \<and> lexemePersistence s' k = Some (length (heap_idb s))
          \<and> lexemeIDBSynced s' k = Some (IdbSyncedOf (length (heap_idb s)))
          \<and> lexemeWebsocketProvider s' k = Some (length (heap_ws s))
          \<and> lexemeWebsocketSynced s' k = Some (WebsocketSyncedOf (length (heap_ws s)))
          \<and> hd ws = RL_AwaitFresh (length (heap_docs s)) (length (heap_idb s)) (length (heap_ws s))
          \<and> list_all (rl_cached_on (length (heap_docs s))) (tl ws)"
    unfolding e using r h w by simp
next
  assume "k = HOME_TOKEN K \<or> k = EM_TOKEN K \<or> k = ABSOLUTE_TOKEN K"
  then show "replicateLexeme_calls K k (bg # bgs) s = (map (\<lambda>b. RL_Returned None) (bg # bgs), s)"
    by (rule replicateLexeme_calls_special)
qed

text \<open>
  The claim as stated fails. With a first caller that passes \<^verbatim>\<open>remote: false\<close>, two
  concurrent calls create one document and one persistence but no websocket
  provider, and no websocket sync promise is cached. In test mode each of two
  calls creates a document of its own and nothing is cached. For the special
  context \<^verbatim>\<open>HOME_TOKEN\<close> two calls of \<^verbatim>\<open>replicateLexeme\<close> create nothing at all.
\<close>

theorem concurrent_replication_triple_counterexample:
  "(case replicateChildren_calls example_constants example_config ''k''
           [\<lparr>background = False, onDoc = False, remote = False\<rparr>,
            \<lparr>background = True, onDoc = False, remote = True\<rparr>] started_world of
      (ws, s') \<Rightarrow>
        length (heap_docs s') = 1 \<and> length (heap_idb s') = 1 \<and> heap_ws s' = []
      \<and> thoughtWebsocketSynced s' ''k'' = None)
   \<and> (case replicateChildren_calls (example_constants\<lparr>MODE := ''test''\<rparr>) example_config ''k''
           [\<lparr>background = False, onDoc = False, remote = True\<rparr>,
            \<lparr>background = False, onDoc = False, remote = True\<rparr>] started_world of
      (ws, s') \<Rightarrow>
        length (heap_docs s') = 2 \<and> heap_idb s' = [] \<and> heap_ws s' = [] \<and> thoughtDocs s' ''k'' = None)
   \<and> (case replicateLexeme_calls example_constants (HOME_TOKEN example_constants) [False, False]
           started_world of
      (ws, s') \<Rightarrow>
        ws = [RL_Returned None, RL_Returned None]
      \<and> heap_docs s' = [] \<and> heap_idb s' = [] \<and> heap_ws s' = []
      \<and> lexemeDocs s' (HOME_TOKEN example_constants) = None)"
  by (simp add: replicateChildren_main_def replicateLexeme_def started_world_def init_module_state_def
        initial_world_def example_constants_def example_config_def alloc_doc_def alloc_idb_def
        alloc_ws_def encodeThoughtDocumentName_def Let_def)

theorem concurrent_replication_creates_one_shard_witness:
  "MODE example_constants \<noteq> ''test'' \<and> thoughtDocs started_world ''k'' = None
   \<and> (case replicateChildren_calls example_constants example_config ''k''
           [\<lparr>background = False, onDoc = False, remote = True\<rparr>,
            \<lparr>background = True, onDoc = False, remote = True\<rparr>,
            \<lparr>background = False, onDoc = True, remote = False\<rparr>] started_world of
      (ws, s') \<Rightarrow>
        length (heap_docs s') = 1 \<and> length (heap_idb s') = 1 \<and> length (heap_ws s') = 1
        \<and> thoughtDocs s' ''k'' = Some 0
        \<and> ws = [RC_AwaitFresh 0 0 (Some 0), RC_AwaitCached 0 (Some (WebsocketSyncedOf 0)),
                 RC_AwaitCached 0 (Some (IdbSyncedOf 0))])
   \<and> lexemeDocs started_world ''k'' = None \<and> configCache started_world = Some example_config
   \<and> ''k'' \<noteq> HOME_TOKEN example_constants \<and> ''k'' \<noteq> EM_TOKEN example_constants
   \<and> ''k'' \<noteq> ABSOLUTE_TOKEN example_constants
   \<and> (case replicateLexeme_calls example_constants ''k'' [False, True, False] started_world of
      (ws, s') \<Rightarrow>
        length (heap_docs s') = 1 \<and> length (heap_idb s') = 1 \<and> length (heap_ws s') = 1
        \<and> lexemeDocs s' ''k'' = Some 0
        \<and> ws = [RL_AwaitFresh 0 0 0, RL_AwaitCached 0 (Some (WebsocketSyncedOf 0)),
                 RL_AwaitCached 0 (Some (IdbSyncedOf 0))])
   \<and> ''__ROOT__'' = HOME_TOKEN example_constants
   \<and> replicateLexeme_calls example_constants ''__ROOT__'' [False, True] started_world
       = ([RL_Returned None, RL_Returned None], started_world)"
  using concurrent_replication_creates_one_shard
    [of example_constants started_world "''k''" example_config
        "\<lparr>background = False, onDoc = False, remote = True\<rparr>"
        "[\<lparr>background = True, onDoc = False, remote = True\<rparr>,
          \<lparr>background = False, onDoc = True, remote = False\<rparr>]" False "[True, False]"]
    concurrent_replication_creates_one_shard
    [of example_constants started_world "''__ROOT__''" example_config
        "\<lparr>background = False, onDoc = False, remote = True\<rparr>" "[]" False "[True]"]
  by (simp add: replicateChildren_main_def replicateLexeme_def replicateLexeme_main_def
        started_world_def init_module_state_def initial_world_def
        example_constants_def example_config_def alloc_doc_def alloc_idb_def alloc_ws_def
        encodeThoughtDocumentName_def encodeLexemeDocumentName_def Let_def emit_def)

subsection \<open>Freeing a shard that is retained again\<close>

text \<open>
  Deallocation does nothing for a retained key, a foreground replication
  retains its key, and outside test mode the key has a cached document after
  the first segment of a replication.
\<close>

lemma tryDeallocateThought_retained: "k \<in> thoughtRetained s \<Longrightarrow> tryDeallocateThought k s = s"
  by (simp add: tryDeallocateThought_def)

lemma tryDeallocateLexeme_retained: "k \<in> lexemeRetained s \<Longrightarrow> tryDeallocateLexeme k s = s"
  by (simp add: tryDeallocateLexeme_def)

lemma replicateChildren_main_retains:
  "\<not> background opts \<Longrightarrow> k \<in> thoughtRetained (snd (replicateChildren_main K cfg k opts s))"
  by (auto simp: replicateChildren_main_def Let_def alloc_doc_def alloc_idb_def alloc_ws_def emit_def
           split: option.splits prod.splits)

lemma replicateLexeme_main_retains:
  "k \<in> lexemeRetained (snd (replicateLexeme_main K cfg k False s))"
  by (auto simp: replicateLexeme_main_def Let_def alloc_doc_def alloc_idb_def alloc_ws_def
           split: option.splits prod.splits)

lemma replicateChildren_main_resident:
  "MODE K \<noteq> ''test'' \<Longrightarrow> \<exists>d. thoughtDocs (snd (replicateChildren_main K cfg k opts s)) k = Some d"
  by (cases "thoughtDocs s k")
     (simp_all add: replicateChildren_main_fresh replicateChildren_main_cached)

lemma replicateLexeme_main_resident:
  "MODE K \<noteq> ''test'' \<Longrightarrow> \<exists>d. lexemeDocs (snd (replicateLexeme_main K cfg k bg s)) k = Some d"
  by (cases "lexemeDocs s k")
     (simp_all add: replicateLexeme_main_fresh replicateLexeme_main_cached)

text \<open>
  Claim C2. \<^verbatim>\<open>freeThought(k)\<close> (or \<^verbatim>\<open>freeLexeme(k)\<close>) releases the key and waits; when a
  foreground replication of \<open>k\<close> runs before the call resumes, the key is
  retained again and the deallocation the call resumes with changes nothing:
  the document and the providers are not destroyed, the caches keep them and
  (outside test mode) the key still has its cached document for the next read.
  The deallocation step checks the retained set itself, in whatever state it
  runs, and is the identity when the key is there.
\<close>

theorem free_then_foreground_replication_keeps_shard:
  assumes "\<not> background opts"
  shows
   "(let s1 = snd (freeThought_begin k s);
         s2 = snd (replicateChildren_main K cfg k opts s1)
     in tryDeallocateThought k s2 = s2 \<and> (MODE K \<noteq> ''test'' \<longrightarrow> thoughtDocs s2 k \<noteq> None))
    \<and> (let s1 = snd (freeLexeme_begin k s);
            s2 = snd (replicateLexeme_main K cfg k False s1)
        in tryDeallocateLexeme k s2 = s2 \<and> (MODE K \<noteq> ''test'' \<longrightarrow> lexemeDocs s2 k \<noteq> None))
    \<and> (\<forall>s'. (k \<in> thoughtRetained s' \<longrightarrow> tryDeallocateThought k s' = s')
           \<and> (k \<in> lexemeRetained s' \<longrightarrow> tryDeallocateLexeme k s' = s'))"
  using assms
  by (simp add: Let_def tryDeallocateThought_retained tryDeallocateLexeme_retained
        replicateChildren_main_retains replicateLexeme_main_retains
        replicateChildren_main_resident replicateLexeme_main_resident)

theorem free_then_foreground_replication_keeps_shard_witness:
  "\<not> background \<lparr>background = False, onDoc = False, remote = True\<rparr>
   \<and> (let s0 = snd (replicateChildren_main example_constants example_config ''k''
                     \<lparr>background = False, onDoc = False, remote = True\<rparr> started_world);
           s1 = snd (freeThought_begin ''k'' s0);
           s2 = snd (replicateChildren_main example_constants example_config ''k''
                     \<lparr>background = False, onDoc = False, remote = True\<rparr> s1);
           s3 = tryDeallocateThought ''k'' s2
       in ''k'' \<notin> thoughtRetained s1 \<and> s3 = s2 \<and> thoughtDocs s3 ''k'' = Some 0
          \<and> map destroyed (heap_docs s3) = [False] \<and> map ws_destroyed (heap_ws s3) = [False])"
  using free_then_foreground_replication_keeps_shard
    [of "\<lparr>background = False, onDoc = False, remote = True\<rparr>" "''k''"
        "snd (replicateChildren_main example_constants example_config ''k''
                     \<lparr>background = False, onDoc = False, remote = True\<rparr> started_world)"
        example_constants example_config]
  by (simp add: replicateChildren_main_def started_world_def init_module_state_def initial_world_def
        example_constants_def example_config_def alloc_doc_def alloc_idb_def alloc_ws_def
        encodeThoughtDocumentName_def Let_def emit_def freeThought_begin_def new_YDoc_def)

subsection \<open>A disabled write\<close>

lemmas example_defs = started_world_def init_module_state_def initial_world_def
        example_constants_def example_config_def alloc_doc_def alloc_idb_def alloc_ws_def
        encodeThoughtDocumentName_def encodeLexemeDocumentName_def Let_def emit_def new_YDoc_def

lemmas lexeme_eval_defs = updateLexeme_resume_def updateLexeme_def replicateLexeme_def replicateLexeme_main_def
  example_lexeme_world_def example_lexeme_def lexeme_obj_def doc_at_def getLexeme_def getLexeme_step_def
  cxid_of_key_def js_split_def cx_key_def lexemeKeyToDb_def lexemeKeyFromDb_def js_property_name_def
  onLexemeChange_def replicateLexeme_finish_def set_docKeys_of_contexts_def tryDeallocateLexeme_def
  missing_docKey_message_def js_Error_def ymap_root_size_def ymap_root_toJSON_def

text \<open>
  Claim C3, evaluated where it fails. The thought \<^verbatim>\<open>a\<close> is resident with value
  \<^verbatim>\<open>old\<close> in the cached document of its parent; \<^verbatim>\<open>updateThought\<close> with value \<^verbatim>\<open>new\<close>
  resolves at once and the document still holds \<^verbatim>\<open>old\<close>: nothing is merged and no
  sync is awaited.
\<close>

theorem updateThought_leaves_document_unchanged:
  "(case updateThought ''a'' example_thought_edit example_thought_world of
      (r, s') \<Rightarrow>
        r = Resolved ()
      \<and> map_option t_value (getThought (doc_at s' 0) ''a'') = Some (Some (TStr ''old''))
      \<and> heap_docs s' = heap_docs example_thought_world)
   \<and> thoughtDocs example_thought_world ''p'' = Some 0
   \<and> t_value example_thought_edit = Some (TStr ''new'')"
  by (simp add: updateThought_def example_thought_world_def example_thought_doc_def
        example_thought_edit_def getThought_def doc_at_def)

subsection \<open>Order of local and remote sync\<close>

text \<open>
  Claim C4, evaluated where it fails. The first segment of \<^verbatim>\<open>replicateChildren\<close>
  and of \<^verbatim>\<open>replicateLexeme\<close> for a key without a cached document creates the
  websocket provider of the document in the same segment as its persistence,
  whose \<^verbatim>\<open>synced\<close> flag is still false: the provider exists before the local
  storage has reported synced.
\<close>

theorem websocket_provider_created_before_idb_synced:
  "(case replicateChildren_main example_constants example_config ''k''
           \<lparr>background = False, onDoc = False, remote = True\<rparr> started_world of
      (w, s') \<Rightarrow>
        w = RC_AwaitFresh 0 0 (Some 0)
      \<and> heap_idb s' = [\<lparr>idb_name = ''ts/thought/k'', idb_doc = 0, idb_synced = False\<rparr>]
      \<and> heap_ws s' = [\<lparr>ws_name = ''ts/thought/k'', ws_document = 0, ws_token = ''token'',
                         ws_destroyed = False\<rparr>])
   \<and> (case replicateLexeme_main example_constants example_config ''apple'' False started_world of
      (w, s') \<Rightarrow>
        w = RL_AwaitFresh 0 0 0
      \<and> heap_idb s' = [\<lparr>idb_name = ''ts/lexeme/apple'', idb_doc = 0, idb_synced = False\<rparr>]
      \<and> heap_ws s' = [\<lparr>ws_name = ''ts/lexeme/apple'', ws_document = 0, ws_token = ''token'',
                         ws_destroyed = False\<rparr>])"
  by (simp add: replicateChildren_main_def replicateLexeme_main_def example_defs)

theorem websocket_provider_created_before_idb_synced_witness:
  "map idb_synced
     (heap_idb (snd (replicateChildren_main example_constants example_config ''k''
                       \<lparr>background = False, onDoc = False, remote = True\<rparr> started_world))) = [False]
   \<and> map ws_document
     (heap_ws (snd (replicateChildren_main example_constants example_config ''k''
                      \<lparr>background = False, onDoc = False, remote = True\<rparr> started_world))) = [0]"
  using websocket_provider_created_before_idb_synced
  by (simp add: split_def)

text \<open>
  The handler for the doclog's blocks keeps the order: loading a block creates
  its persistence only, and the websocket provider is created by the \<^verbatim>\<open>then\<close>
  handler of that persistence's \<^verbatim>\<open>whenSynced\<close>.
\<close>

lemma doclog_subdoc_loaded_creates_no_provider:
  "heap_ws (snd (doclog_subdoc_loaded K subdoc s)) = heap_ws s"
  by (simp add: doclog_subdoc_loaded_def alloc_idb_def split: option.splits)

lemma doclog_provider_created_after_synced:
  assumes "doclog_subdoc_loaded K subdoc s = (Some p, s1)"
  shows "(case doc_at s subdoc of
            None \<Rightarrow> False
          | Some d \<Rightarrow>
              heap_ws (doclog_subdoc_whenSynced_then token subdoc (idb_whenSynced_resolves p s1))
                = heap_ws s @ [\<lparr>ws_name = guid d, ws_document = subdoc, ws_token = token,
                                 ws_destroyed = False\<rparr>]
            \<and> map idb_synced
                  (drop p (heap_idb (doclog_subdoc_whenSynced_then token subdoc
                                       (idb_whenSynced_resolves p s1)))) = [True])"
  using assms
  by (auto simp: doclog_subdoc_loaded_def doclog_subdoc_whenSynced_then_def
        idb_whenSynced_resolves_def alloc_idb_def alloc_ws_def doc_at_def
        split: if_splits option.splits)

subsection \<open>Missing docKeys\<close>

text \<open>
  The loops of \<^verbatim>\<open>updateLexeme\<close> throw as soon as they meet a context id that
  the old lexeme lacks and that has no docKey.
\<close>

lemma add_contexts_throws:
  "cxid \<in> set cxids \<Longrightarrow> cxid \<notin> set old \<Longrightarrow> dk cxid = None \<Longrightarrow>
   \<exists>c m'. c \<in> set cxids \<and> add_contexts dk old cxids m = (Some (js_Error (missing_docKey_message c)), m')"
proof (induction cxids arbitrary: m)
  case Nil
  then show ?case by simp
next
  case (Cons x xs)
  show ?case
  proof (cases "x = cxid")
    case True
    with Cons.prems show ?thesis by auto
  next
    case False
    with Cons.prems have mem: "cxid \<in> set xs" by simp
    note ih = Cons.IH [OF mem Cons.prems(2) Cons.prems(3)]
    show ?thesis
    proof (cases "x \<in> set old")
      case True
      with ih [of m] show ?thesis by auto
    next
      case notold: False
      show ?thesis
      proof (cases "dk x")
        case None
        with notold show ?thesis by auto
      next
        case (Some docKey)
        show ?thesis
        proof (cases "docKey = []")
          case True
          with Some notold show ?thesis by auto
        next
          case False
          with Some notold ih [of "AList.update (cx_key x) (JStr docKey) m"] show ?thesis by auto
        qed
      qed
    qed
  qed
qed

lemma updateLexeme_keys_throws:
  assumes c: "map_of lexemeNew ''contexts'' = Some (JArr cxids)"
    and m: "cxid \<in> set cxids"
    and o: "cxid \<notin> set (js_elements (case lexemeOld of None \<Rightarrow> None | Some old \<Rightarrow> map_of old ''contexts''))"
    and d: "dk cxid = None"
  shows "''contexts'' \<in> set keys \<Longrightarrow>
   \<exists>c m' w'. c \<in> set cxids \<and>
      updateLexeme_keys dk lexemeNew lexemeOld keys m w
        = (Some (js_Error (missing_docKey_message c)), m', w')"
proof (induction keys arbitrary: m w)
  case Nil
  then show ?case by simp
next
  case (Cons key keys)
  show ?case
  proof (cases "key = ''contexts''")
    case True
    from add_contexts_throws [where dk = dk and m = m, OF m o d] obtain c m' where
      "c \<in> set cxids"
      "add_contexts dk (js_elements (case lexemeOld of None \<Rightarrow> None | Some old \<Rightarrow> map_of old ''contexts'')) cxids m
         = (Some (js_Error (missing_docKey_message c)), m')"
      by blast
    with True c show ?thesis by auto
  next
    case False
    with Cons.prems have "''contexts'' \<in> set keys" by simp
    from Cons.IH [OF this] False show ?thesis
      by (simp split: option.splits)
  qed
qed

lemma map_of_Some_key: "map_of xs k = Some v \<Longrightarrow> k \<in> set (map fst xs)"
  by (induction xs) (auto split: if_splits)

lemma updateLexeme_resume_throws:
  assumes r: "lexemeDocs s key = Some d" "d < length (heap_docs s)"
    and c: "map_of lexemeNew ''contexts'' = Some (JArr cxids)"
    and m: "cxid \<in> set cxids"
    and o: "cxid \<notin> set (js_elements (case lexemeOld of None \<Rightarrow> None | Some old \<Rightarrow> map_of old ''contexts''))"
    and dk: "docKeys s cxid = None"
  shows "\<exists>c. c \<in> set cxids \<and>
     fst (updateLexeme_resume key lexemeNew lexemeOld s) = UL_Thrown (js_Error (missing_docKey_message c))"
proof -
  from updateLexeme_keys_throws
         [where dk = "docKeys s" and m = "ymap_root (heap_docs s ! d)" and w = None,
          OF c m o dk map_of_Some_key [OF c]]
  obtain c' m' w' where "c' \<in> set cxids"
    "updateLexeme_keys (docKeys s) lexemeNew lexemeOld (map fst lexemeNew) (ymap_root (heap_docs s ! d)) None
       = (Some (js_Error (missing_docKey_message c')), m', w')"
    by blast
  with r show ?thesis
    by (auto simp: updateLexeme_resume_def doc_at_def Let_def)
qed

text \<open>
  Claim C5, amended. \<^verbatim>\<open>replicateThought(id)\<close> for an id without an entry in
  \<^verbatim>\<open>docKeys\<close> throws the missing-docKey error and changes nothing.
  \<^verbatim>\<open>updateLexeme\<close> throws a missing-docKey error when the new lexeme has a context
  id that the old one lacks and that has no entry in \<^verbatim>\<open>docKeys\<close>, provided the
  document of the lexeme is cached when the write is applied.
\<close>

theorem missing_docKey_fails_loudly:
  "(docKeys s ident = None \<longrightarrow>
      replicateThought K ident opts s =
        (Inl (js_Error (''replicateThought: Missing docKey for thought '' @ ident)), s))
   \<and> (lexemeDocs s key = Some d \<and> d < length (heap_docs s)
        \<and> map_of lexemeNew ''contexts'' = Some (JArr cxids)
        \<and> cxid \<in> set cxids
        \<and> cxid \<notin> set (js_elements (case lexemeOld of None \<Rightarrow> None | Some old \<Rightarrow> map_of old ''contexts''))
        \<and> docKeys s cxid = None \<longrightarrow>
      (\<exists>c. c \<in> set cxids \<and>
         fst (updateLexeme K key lexemeNew lexemeOld s) = UL_Thrown (js_Error (missing_docKey_message c))))"
proof (intro conjI impI)
  assume "docKeys s ident = None"
  then show "replicateThought K ident opts s =
        (Inl (js_Error (''replicateThought: Missing docKey for thought '' @ ident)), s)"
    by (simp add: replicateThought_def)
next
  assume a: "lexemeDocs s key = Some d \<and> d < length (heap_docs s)
        \<and> map_of lexemeNew ''contexts'' = Some (JArr cxids)
        \<and> cxid \<in> set cxids
        \<and> cxid \<notin> set (js_elements (case lexemeOld of None \<Rightarrow> None | Some old \<Rightarrow> map_of old ''contexts''))
        \<and> docKeys s cxid = None"
  then have e: "updateLexeme K key lexemeNew lexemeOld s = updateLexeme_resume key lexemeNew lexemeOld s"
    by (simp add: updateLexeme_def)
  from a updateLexeme_resume_throws [of s key d lexemeNew cxids cxid lexemeOld]
  show "\<exists>c. c \<in> set cxids \<and>
         fst (updateLexeme K key lexemeNew lexemeOld s) = UL_Thrown (js_Error (missing_docKey_message c))"
    unfolding e by blast
qed

theorem missing_docKey_fails_loudly_witness:
  "docKeys started_world ''t9'' = None
   \<and> replicateThought example_constants ''t9'' \<lparr>background = False, onDoc = False, remote = True\<rparr>
         started_world
       = (Inl (js_Error ''replicateThought: Missing docKey for thought t9''), started_world)
   \<and> lexemeDocs example_lexeme_world ''apple'' = Some 0
   \<and> docKeys example_lexeme_world ''x1'' = None
   \<and> fst (updateLexeme example_constants ''apple'' (example_lexeme ''x1'') None example_lexeme_world)
       = UL_Thrown (js_Error (missing_docKey_message ''x1''))"
  using missing_docKey_fails_loudly
          [where s = started_world and ident = "''t9''" and K = example_constants
             and opts = "\<lparr>background = False, onDoc = False, remote = True\<rparr>"]
        missing_docKey_fails_loudly
          [where s = example_lexeme_world and key = "''apple''" and d = 0
             and lexemeNew = "example_lexeme ''x1''" and cxids = "[''x1'']" and cxid = "''x1''"
             and lexemeOld = None and K = example_constants]
  by (simp add: example_lexeme_world_def example_lexeme_def lexeme_obj_def replicateLexeme_main_def
        example_defs)

text \<open>
  Without a cached document \<^verbatim>\<open>updateLexeme\<close> returns and nothing is thrown.
\<close>

lemma tryDeallocateLexeme_clears:
  "k \<notin> lexemeRetained s \<Longrightarrow> lexemeDocs (tryDeallocateLexeme k s) k = None"
  by (simp add: tryDeallocateLexeme_def Let_def destroy_doc_def destroy_ws_def split: option.splits)

lemma tryDeallocateLexeme_keeps_absent:
  "lexemeDocs s k = None \<Longrightarrow> lexemeDocs (tryDeallocateLexeme k s) k = None"
  by (simp add: tryDeallocateLexeme_def Let_def destroy_doc_def destroy_ws_def split: option.splits)

lemma replicateLexeme_foreground_resume_clears:
  "k \<notin> lexemeRetained s \<Longrightarrow> lexemeDocs (snd (replicateLexeme_foreground_resume k d s)) k = None"
  by (simp add: replicateLexeme_foreground_resume_def replicateLexeme_finish_def Let_def
        tryDeallocateLexeme_clears observe_root_def)

lemma updateLexeme_resume_absent:
  "lexemeDocs s k = None \<Longrightarrow> updateLexeme_resume k lexemeNew lexemeOld s = (UL_Returned, s)"
  by (simp add: updateLexeme_resume_def)

text \<open>
  The claim as stated fails for \<^verbatim>\<open>updateLexeme\<close>. The new lexeme has the context
  \<^verbatim>\<open>x1\<close>, which has no docKey and no old lexeme to come from. For the key of a
  special context the awaited replication returns at once without a document,
  and the call returns. For an ordinary key the call waits for the replication
  it started; when \<^verbatim>\<open>freeLexeme\<close> is called meanwhile (a thought created and
  deleted quickly), the replication ends by deallocating the released lexeme,
  \<^verbatim>\<open>freeLexeme\<close> resumes, and the call then finds no document and returns.
  Nothing is thrown in either run.
\<close>

theorem updateLexeme_unresident_counterexample:
  "docKeys started_world ''x1'' = None
   \<and> updateLexeme example_constants ''__ROOT__'' (example_lexeme ''x1'') None started_world
       = (UL_Returned, started_world)
   \<and> updateLexeme example_constants ''apple'' (example_lexeme ''x1'') None started_world
       = (UL_AwaitReplicateLexeme (RL_AwaitFresh 0 0 0), example_lexeme_world)
   \<and> fst (updateLexeme_resume ''apple'' (example_lexeme ''x1'') None
            (tryDeallocateLexeme ''apple''
               (snd (replicateLexeme_foreground_resume ''apple'' 0
                       (snd (freeLexeme_begin ''apple'' example_lexeme_world))))))
       = UL_Returned"
proof (intro conjI)
  show "docKeys started_world ''x1'' = None"
    by (simp add: example_defs)
  have n: "lexemeDocs started_world ''__ROOT__'' = None" "lexemeDocs started_world ''apple'' = None"
    by (simp_all add: example_defs)
  show "updateLexeme example_constants ''__ROOT__'' (example_lexeme ''x1'') None started_world
       = (UL_Returned, started_world)"
    by (simp add: updateLexeme_def replicateLexeme_def n updateLexeme_resume_absent
          example_constants_def)
  have c: "configCache started_world = Some example_config"
    by (simp add: example_defs)
  have m: "replicateLexeme_main example_constants example_config ''apple'' False started_world =
             (RL_AwaitFresh 0 0 0, example_lexeme_world)"
    unfolding example_lexeme_world_def
    by (simp add: replicateLexeme_main_fresh [OF n(2)] example_constants_def)
       (simp add: example_defs)
  show "updateLexeme example_constants ''apple'' (example_lexeme ''x1'') None started_world
       = (UL_AwaitReplicateLexeme (RL_AwaitFresh 0 0 0), example_lexeme_world)"
    by (simp add: updateLexeme_def replicateLexeme_def n c m) (simp add: example_constants_def)
  have "''apple'' \<notin> lexemeRetained (snd (freeLexeme_begin ''apple'' example_lexeme_world))"
    by (simp add: freeLexeme_begin_def)
  then have "lexemeDocs (snd (replicateLexeme_foreground_resume ''apple'' 0
                 (snd (freeLexeme_begin ''apple'' example_lexeme_world)))) ''apple'' = None"
    by (rule replicateLexeme_foreground_resume_clears)
  then have "lexemeDocs (tryDeallocateLexeme ''apple''
               (snd (replicateLexeme_foreground_resume ''apple'' 0
                       (snd (freeLexeme_begin ''apple'' example_lexeme_world))))) ''apple'' = None"
    by (rule tryDeallocateLexeme_keeps_absent)
  then show "fst (updateLexeme_resume ''apple'' (example_lexeme ''x1'') None
            (tryDeallocateLexeme ''apple''
               (snd (replicateLexeme_foreground_resume ''apple'' 0
                       (snd (freeLexeme_begin ''apple'' example_lexeme_world))))))
       = UL_Returned"
    by (simp add: updateLexeme_resume_absent)
qed

subsection \<open>Deleting what is already gone\<close>

text \<open>
  Claim C6. \<^verbatim>\<open>deleteThought\<close> and \<^verbatim>\<open>deleteLexeme\<close> resolve when the storage clear
  succeeds and also when it fails with a \<^verbatim>\<open>NotFoundError\<close>; they reject with the
  error of the clear when it has any other name. For \<^verbatim>\<open>deleteLexeme\<close> this is the
  outcome of its \<^verbatim>\<open>try\<close> block in every state, and of the whole call whenever
  it gets to that block: there was no old lexeme, or the \<^verbatim>\<open>updateLexeme\<close> that
  clears its contexts went through.
\<close>

theorem delete_tolerates_not_found:
  "fst (deleteThought cfg docKey cleared s) =
     (case cleared of
        None \<Rightarrow> Resolved ()
      | Some e \<Rightarrow> if err_name e = ''NotFoundError'' then Resolved () else Rejected e)
   \<and> fst (deleteLexeme_finish key cleared s') =
     (case cleared of
        None \<Rightarrow> Resolved ()
      | Some e \<Rightarrow> if err_name e = ''NotFoundError'' then Resolved () else Rejected e)
   \<and> (updateLexeme_completed (fst (deleteLexeme_begin K key s)) \<longrightarrow>
        fst (deleteLexeme K cfg key cleared s) =
          Some (case cleared of
                  None \<Rightarrow> Resolved ()
                | Some e \<Rightarrow> if err_name e = ''NotFoundError'' then Resolved () else Rejected e))"
proof (intro conjI impI)
  show "fst (deleteThought cfg docKey cleared s) =
     (case cleared of
        None \<Rightarrow> Resolved ()
      | Some e \<Rightarrow> if err_name e = ''NotFoundError'' then Resolved () else Rejected e)"
    by (simp add: deleteThought_def deleteThought_finish_def Let_def split: option.splits)
  show f: "fst (deleteLexeme_finish key cleared s') =
     (case cleared of
        None \<Rightarrow> Resolved ()
      | Some e \<Rightarrow> if err_name e = ''NotFoundError'' then Resolved () else Rejected e)" for s'
    by (simp add: deleteLexeme_finish_def Let_def split: option.splits)
  assume c: "updateLexeme_completed (fst (deleteLexeme_begin K key s))"
  obtain r s1 where b: "deleteLexeme_begin K key s = (r, s1)"
    by (cases "deleteLexeme_begin K key s")
  with c have "updateLexeme_completed r" by simp
  then have "fst (deleteLexeme K cfg key cleared s) =
               Some (fst (deleteLexeme_finish key cleared
                            (snd (deleteLexeme_try cfg key (lexemePersistence s key) s1))))"
    by (cases r rule: updateLexeme_completed.cases)
       (simp_all add: deleteLexeme_def b Let_def split_def)
  then show "fst (deleteLexeme K cfg key cleared s) =
          Some (case cleared of
                  None \<Rightarrow> Resolved ()
                | Some e \<Rightarrow> if err_name e = ''NotFoundError'' then Resolved () else Rejected e)"
    by (simp add: f)
qed

theorem delete_tolerates_not_found_witness:
  "updateLexeme_completed (fst (deleteLexeme_begin example_constants ''apple'' started_world))
   \<and> fst (deleteLexeme example_constants example_config ''apple''
             (Some \<lparr>err_name = ''NotFoundError'', err_message = ''''\<rparr>) started_world) = Some (Resolved ())
   \<and> fst (deleteLexeme example_constants example_config ''apple''
             (Some \<lparr>err_name = ''QuotaExceededError'', err_message = ''full''\<rparr>) started_world)
       = Some (Rejected \<lparr>err_name = ''QuotaExceededError'', err_message = ''full''\<rparr>)
   \<and> fst (deleteThought example_config ''t1''
             (Some \<lparr>err_name = ''NotFoundError'', err_message = ''''\<rparr>) started_world) = Resolved ()
   \<and> fst (deleteLexeme_begin example_constants ''apple''
            (example_stored_lexeme_world (lexeme_db [''X'' \<mapsto> ''P''] [''X''] ''t0'' ''t1'' ''me'')))
       = Some (UL_AwaitIdbSynced (Some 0))
   \<and> fst (deleteLexeme example_constants example_config ''apple''
             (Some \<lparr>err_name = ''NotFoundError'', err_message = ''''\<rparr>)
             (example_stored_lexeme_world (lexeme_db [''X'' \<mapsto> ''P''] [''X''] ''t0'' ''t1'' ''me'')))
       = Some (Resolved ())"
  using delete_tolerates_not_found [of example_config "''t1''" "Some \<lparr>err_name = ''NotFoundError'', err_message = ''''\<rparr>" started_world "''apple''" started_world example_constants]
    delete_tolerates_not_found [of example_config "''t1''" "Some \<lparr>err_name = ''QuotaExceededError'', err_message = ''full''\<rparr>" started_world "''apple''" started_world example_constants]
    delete_tolerates_not_found
      [of example_config "''t1''" "Some \<lparr>err_name = ''NotFoundError'', err_message = ''''\<rparr>"
          "example_stored_lexeme_world (lexeme_db [''X'' \<mapsto> ''P''] [''X''] ''t0'' ''t1'' ''me'')"
          "''apple''" started_world example_constants]
  by (simp add: deleteLexeme_begin_def deleteLexeme_lexemeOld_def lexeme_eval_defs example_defs
        example_stored_lexeme_world_def lexeme_db_def cx_fields_def delete_contexts_def)

text \<open>
  A throw of \<^verbatim>\<open>updateLexeme\<close> is outside the \<^verbatim>\<open>try\<close> block: it rejects the call
  before any clear is started. A cached document that holds the field
  \<^verbatim>\<open>cx-cx-a\<close> (the context id \<^verbatim>\<open>cx-a\<close>) is read by \<^verbatim>\<open>getLexeme\<close> as a lexeme
  with the property \<^verbatim>\<open>undefined\<close>; \<^verbatim>\<open>deleteLexeme\<close> passes it to
  \<^verbatim>\<open>updateLexeme\<close>, which sets the value under the key \<^verbatim>\<open>undefined\<close>, and the
  call rejects with the TypeError of the transaction.
\<close>

lemma deleteLexeme_rejects_on_throw:
  "fst (deleteLexeme_begin K key s) = Some (UL_Thrown e) \<Longrightarrow>
   fst (deleteLexeme K cfg key cleared s) = Some (Rejected e)"
  by (cases "deleteLexeme_begin K key s") (simp add: deleteLexeme_def)

lemma deleteLexeme_undefined_key_rejects:
  "deleteLexeme_lexemeOld ''apple'' (example_stored_lexeme_world [(''cx-cx-a'', JStr ''P'')])
     = Some [(''contexts'', JArr []), (''undefined'', JStr ''P'')]
   \<and> fst (deleteLexeme example_constants example_config ''apple''
            (Some \<lparr>err_name = ''NotFoundError'', err_message = ''''\<rparr>)
            (example_stored_lexeme_world [(''cx-cx-a'', JStr ''P'')]))
     = Some (Rejected (js_TypeError ''Cannot read properties of undefined (reading 'length')''))"
  by (simp add: deleteLexeme_begin_def deleteLexeme_def deleteLexeme_lexemeOld_def lexeme_eval_defs
        example_defs example_stored_lexeme_world_def delete_contexts_def js_TypeError_def)

subsection \<open>Storage errors while loading\<close>

text \<open>
  Claim C7. The catch handler on the local-storage sync of \<^verbatim>\<open>replicateChildren\<close>
  and of \<^verbatim>\<open>replicateLexeme\<close> resolves for every error. For an abort error it
  frees the key and sets exactly one timer of \<open>IDB_ERROR_RETRY\<close> = 1000
  milliseconds that calls the replication again with the same arguments, and
  reports nothing; for any other error it sets no timer and calls \<^verbatim>\<open>onError\<close>
  once with the message and the error. The handler \<^verbatim>\<open>updateLexeme\<close> puts on the
  sync it awaits does the same, without freeing the key, and reports through
  the config once that is resolved.
\<close>

theorem storage_error_handling:
  "replicateChildren_idbSynced_catch k opts e s =
     (if is_AbortError e
      then (Resolved (),
            s\<lparr>thoughtRetained := thoughtRetained s - {k},
              detached := detached s @ [(thoughtIDBSynced s k, Then_tryDeallocateThought k)],
              timers := timers s @ [(1000, Retry_replicateChildren k opts)]\<rparr>)
      else (Resolved (),
            s\<lparr>effects := effects s @
                 [OnError (''Error loading thought '' @ k @ '' from IndexedDB: '' @ err_message e) e]\<rparr>))
   \<and> replicateLexeme_idbSynced_catch k bg e s =
     (if is_AbortError e
      then (Resolved (),
            s\<lparr>lexemeRetained := lexemeRetained s - {k},
              detached := detached s @ [(lexemeIDBSynced s k, Then_tryDeallocateLexeme k)],
              timers := timers s @ [(1000, Retry_replicateLexeme k bg)]\<rparr>)
      else (Resolved (),
            s\<lparr>effects := effects s @
                 [OnError (''Error loading lexeme '' @ k @ '': '' @ err_message e) e]\<rparr>))
   \<and> updateLexeme_idbSynced_catch k lexemeNew lexemeOld e s =
     (if is_AbortError e
      then (Resolved (), s\<lparr>timers := timers s @ [(1000, Retry_updateLexeme k lexemeNew lexemeOld)]\<rparr>)
      else (Resolved (),
            case configCache s of
              Some cfg \<Rightarrow>
                s\<lparr>effects := effects s @
                     [ConsoleError (''Error saving lexeme: '' @ err_message e),
                      OnError (''Error saving lexeme: '' @ err_message e) e]\<rparr>
            | None \<Rightarrow>
                s\<lparr>detached := detached s @
                     [(Some ConfigPromise,
                       Then_onError (''Error saving lexeme: '' @ err_message e) e)]\<rparr>))
   \<and> run_task K (Retry_replicateChildren k opts) s' = snd (replicateChildren K k opts s')
   \<and> run_task K (Retry_replicateLexeme k bg) s' = snd (replicateLexeme K k bg s')
   \<and> run_task K (Retry_updateLexeme k lexemeNew lexemeOld) s'
       = snd (updateLexeme K k lexemeNew lexemeOld s')
   \<and> IDB_ERROR_RETRY = 1000"
  by (simp add: replicateChildren_idbSynced_catch_def freeThought_detached_def freeThought_begin_def
        replicateLexeme_idbSynced_catch_def freeLexeme_detached_def freeLexeme_begin_def
        updateLexeme_idbSynced_catch_def
        setTimeout_def emit_def IDB_ERROR_RETRY_def run_task_def split: option.splits)

text \<open>
  The retry replicates again: after an abort of the first sync of \<^verbatim>\<open>k\<close>, the
  detached \<^verbatim>\<open>freeThought\<close> deallocates the document, and the timer's call creates
  and caches a second document for the key.
\<close>

lemma abort_then_retry_replicates_again:
  "(let opts = \<lparr>background = False, onDoc = False, remote = True\<rparr>;
        s1 = snd (replicateChildren_main example_constants example_config ''k'' opts started_world);
        s2 = snd (replicateChildren_idbSynced_catch ''k'' opts
                    \<lparr>err_name = ''AbortError'', err_message = ''aborted''\<rparr> s1);
        s3 = run_continuation (Then_tryDeallocateThought ''k'') s2;
        s4 = run_task example_constants (Retry_replicateChildren ''k'' opts) s3
    in detached s2 = [(Some (IdbSyncedOf 0), Then_tryDeallocateThought ''k'')]
     \<and> timers s2 = [(1000, Retry_replicateChildren ''k'' opts)]
     \<and> thoughtDocs s3 ''k'' = None \<and> map destroyed (heap_docs s3) = [True]
     \<and> thoughtDocs s4 ''k'' = Some 1 \<and> map destroyed (heap_docs s4) = [True, False])"
proof -
  define opts where "opts = \<lparr>background = False, onDoc = False, remote = True\<rparr>"
  define s1 where "s1 = snd (replicateChildren_main example_constants example_config ''k'' opts started_world)"
  define s2 where "s2 = snd (replicateChildren_idbSynced_catch ''k'' opts
                    \<lparr>err_name = ''AbortError'', err_message = ''aborted''\<rparr> s1)"
  define s3 where "s3 = run_continuation (Then_tryDeallocateThought ''k'') s2"
  define s4 where "s4 = run_task example_constants (Retry_replicateChildren ''k'' opts) s3"
  have m: "MODE example_constants \<noteq> ''test''" by (simp add: example_constants_def)
  have n: "thoughtDocs started_world ''k'' = None" "heap_docs started_world = []"
    "heap_idb started_world = []" "heap_ws started_world = []" "timers started_world = []"
    "detached started_world = []" "configCache started_world = Some example_config"
    by (simp_all add: example_defs)
  have f1: "thoughtDocs s1 ''k'' = Some 0" "thoughtIDBSynced s1 ''k'' = Some (IdbSyncedOf 0)"
    "thoughtWebsocketProvider s1 ''k'' = Some 0"
    "map destroyed (heap_docs s1) = [False]" "length (heap_ws s1) = 1"
    "timers s1 = []" "detached s1 = []" "configCache s1 = Some example_config"
    "ymap_children (heap_docs s1 ! 0) = []"
    unfolding s1_def
    by (simp_all add: replicateChildren_main_fresh [OF n(1) m] n opts_def new_YDoc_def)
  have f2: "thoughtDocs s2 ''k'' = Some 0" "''k'' \<notin> thoughtRetained s2"
    "thoughtWebsocketProvider s2 ''k'' = Some 0"
    "map destroyed (heap_docs s2) = [False]" "length (heap_ws s2) = 1"
    "detached s2 = [(Some (IdbSyncedOf 0), Then_tryDeallocateThought ''k'')]"
    "timers s2 = [(1000, Retry_replicateChildren ''k'' opts)]"
    "configCache s2 = Some example_config"
    "heap_docs s2 = heap_docs s1"
    unfolding s2_def
    by (simp_all add: replicateChildren_idbSynced_catch_def is_AbortError_def
          freeThought_detached_def freeThought_begin_def setTimeout_def IDB_ERROR_RETRY_def f1)
  have l2: "length (heap_docs s2) = 1"
    using f2(4) by (metis length_map length_Cons list.size(3) One_nat_def)
  have f3: "thoughtDocs s3 ''k'' = None" "map destroyed (heap_docs s3) = [True]"
    "configCache s3 = Some example_config"
    unfolding s3_def
    using f2 l2
    by (simp_all add: run_continuation_def tryDeallocateThought_def Let_def destroy_doc_def
          destroy_ws_def doc_at_def f1 map_update)
  have l3: "length (heap_docs s3) = 1"
    using f3(2) by (metis length_map length_Cons list.size(3) One_nat_def)
  have f4: "thoughtDocs s4 ''k'' = Some 1" "map destroyed (heap_docs s4) = [True, False]"
    unfolding s4_def
    by (simp_all add: run_task_def replicateChildren_def f3 replicateChildren_main_fresh [OF f3(1) m]
          l3 new_YDoc_def)
  show ?thesis
    using f2 f3 f4
    by (simp add: Let_def opts_def [symmetric] s1_def [symmetric] s2_def [symmetric]
          s3_def [symmetric] s4_def [symmetric])
qed

subsection \<open>One delivery per throttle window\<close>

lemma updateThoughtsThrottled_fold:
  "fold updateThoughtsThrottled bs s =
     s\<lparr>throttle_queue := throttle_queue s @ bs,
       timers := timers s @
         (if throttle_queue s = [] \<and> bs \<noteq> [] then [(UPDATE_THOUGHTS_THROTTLE, Throttle_flush)] else [])\<rparr>"
proof (induction bs arbitrary: s)
  case Nil
  then show ?case by simp
next
  case (Cons b bs)
  define s1 where "s1 = updateThoughtsThrottled b s"
  have q: "throttle_queue s1 = throttle_queue s @ [b]"
    and t: "timers s1 = timers s @
              (if throttle_queue s = [] then [(UPDATE_THOUGHTS_THROTTLE, Throttle_flush)] else [])"
    and r: "\<And>X Y. s1\<lparr>throttle_queue := X, timers := Y\<rparr> = s\<lparr>throttle_queue := X, timers := Y\<rparr>"
    by (simp_all add: s1_def updateThoughtsThrottled_def Let_def setTimeout_def)
  have "fold updateThoughtsThrottled (b # bs) s = fold updateThoughtsThrottled bs s1"
    by (simp add: s1_def)
  also have "\<dots> = s1\<lparr>throttle_queue := throttle_queue s1 @ bs,
                      timers := timers s1 @
                        (if throttle_queue s1 = [] \<and> bs \<noteq> []
                         then [(UPDATE_THOUGHTS_THROTTLE, Throttle_flush)] else [])\<rparr>"
    by (rule Cons.IH)
  also have "\<dots> = s\<lparr>throttle_queue := throttle_queue s @ b # bs,
                     timers := timers s @
                       (if throttle_queue s = [] \<and> b # bs \<noteq> []
                        then [(UPDATE_THOUGHTS_THROTTLE, Throttle_flush)] else [])\<rparr>"
    by (simp add: q t r)
  finally show ?case .
qed

lemma mergeBatch_fields:
  "map_of (thoughtIndexUpdates (mergeBatch a b)) = map_of (thoughtIndexUpdates a) ++ map_of (thoughtIndexUpdates b)"
  "map_of (lexemeIndexUpdates (mergeBatch a b)) = map_of (lexemeIndexUpdates a) ++ map_of (lexemeIndexUpdates b)"
  "map_of (lexemeIndexUpdatesOld (mergeBatch a b)) = map_of (lexemeIndexUpdatesOld a) ++ map_of (lexemeIndexUpdatesOld b)"
  by (simp_all add: mergeBatch_def merge_conv')

lemma foldl_mergeBatch_fields:
  "map_of (thoughtIndexUpdates (foldl mergeBatch a bs)) =
     foldl (++) (map_of (thoughtIndexUpdates a)) (map (\<lambda>b. map_of (thoughtIndexUpdates b)) bs)"
  "map_of (lexemeIndexUpdates (foldl mergeBatch a bs)) =
     foldl (++) (map_of (lexemeIndexUpdates a)) (map (\<lambda>b. map_of (lexemeIndexUpdates b)) bs)"
  "map_of (lexemeIndexUpdatesOld (foldl mergeBatch a bs)) =
     foldl (++) (map_of (lexemeIndexUpdatesOld a)) (map (\<lambda>b. map_of (lexemeIndexUpdatesOld b)) bs)"
  by (induction bs arbitrary: a) (simp_all add: mergeBatch_fields)

text \<open>
  Claim C8. For batches submitted within one window (an empty queue before,
  at least one batch), nothing is delivered while they are submitted or when
  the window closes; the close sets exactly one dispatch timer, whose callback
  delivers exactly one \<^verbatim>\<open>onUpdateThoughts\<close> with the merged batch. In the merged
  batch each index is the earlier batches overridden by the later ones, a
  deletion being a key with the null marker \<open>None\<close>.
\<close>

theorem one_window_one_delivery:
  assumes "throttle_queue s = []" and "bs \<noteq> []" and "configCache s = Some cfg"
  shows
   "(let s1 = fold updateThoughtsThrottled bs s;
         s2 = throttle_flush s1;
         merged = foldl mergeBatch empty_batch bs;
         s3 = run_task K (Dispatch_updateThoughts merged) s2
     in effects s1 = effects s \<and> effects s2 = effects s
      \<and> throttle_queue s2 = []
      \<and> timers s2 = timers s @ [(UPDATE_THOUGHTS_THROTTLE, Throttle_flush),
                                 (0, Dispatch_updateThoughts merged)]
      \<and> effects s3 = effects s @ [OnUpdateThoughts merged False False True]
      \<and> map_of (thoughtIndexUpdates merged) =
          foldl (++) Map.empty (map (\<lambda>b. map_of (thoughtIndexUpdates b)) bs)
      \<and> map_of (lexemeIndexUpdates merged) =
          foldl (++) Map.empty (map (\<lambda>b. map_of (lexemeIndexUpdates b)) bs)
      \<and> map_of (lexemeIndexUpdatesOld merged) =
          foldl (++) Map.empty (map (\<lambda>b. map_of (lexemeIndexUpdatesOld b)) bs))"
  using assms
  by (simp add: Let_def updateThoughtsThrottled_fold throttle_flush_def
        updateThoughtsThrottled_callback_def setTimeout_def run_task_def dispatch_updateThoughts_def
        emit_def foldl_mergeBatch_fields empty_batch_def)

theorem one_window_one_delivery_witness:
  "throttle_queue started_world = []
   \<and> (let bs = [lexeme_batch ''k'' (Some [(''contexts'', JArr [''a''])]),
                 lexeme_batch ''k'' (Some [(''contexts'', JArr [''b''])]),
                 lexeme_batch ''k'' None];
           s2 = throttle_flush (fold updateThoughtsThrottled bs started_world);
           merged = \<lparr>thoughtIndexUpdates = [], lexemeIndexUpdates = [(''k'', None)], lexemeIndexUpdatesOld = []\<rparr>
       in effects s2 = []
        \<and> timers s2 = [(100, Throttle_flush), (0, Dispatch_updateThoughts merged)]
        \<and> effects (run_task example_constants (Dispatch_updateThoughts merged) s2)
            = [OnUpdateThoughts merged False False True])"
  using one_window_one_delivery
    [of started_world "[lexeme_batch ''k'' (Some [(''contexts'', JArr [''a''])]),
                 lexeme_batch ''k'' (Some [(''contexts'', JArr [''b''])]),
                 lexeme_batch ''k'' None]" example_config example_constants]
  by (simp add: Let_def started_world_def init_module_state_def initial_world_def lexeme_batch_def
        mergeBatch_def empty_batch_def UPDATE_THOUGHTS_THROTTLE_def)

subsection \<open>Context ids through the lexeme codec\<close>

lemma js_split_from_no_separator:
  "\<not> js_includes s sep \<Longrightarrow> js_split_from sep cur s = [cur @ s]"
  by (induction s arbitrary: cur) auto

lemma cxid_of_cx_key:
  "c \<noteq> [] \<Longrightarrow> \<not> js_includes c ''cx-'' \<Longrightarrow> cxid_of_key (cx_key c) = Some c"
  by (simp add: cxid_of_key_def cx_key_def js_split_def js_split_from_no_separator)

lemma cxid_of_scalar_keys:
  "cxid_of_key ''c'' = None" "cxid_of_key ''l'' = None" "cxid_of_key ''u'' = None"
  by (simp_all add: cxid_of_key_def js_split_def)

lemma update_absent: "k \<notin> fst ` set m \<Longrightarrow> AList.update k v m = m @ [(k, v)]"
  by (induction m) auto

lemma cx_key_inj: "cx_key a = cx_key b \<longleftrightarrow> a = b"
  by (simp add: cx_key_def)

lemma cx_key_not_scalar:
  "cx_key c \<noteq> ''c''" "cx_key c \<noteq> ''l''" "cx_key c \<noteq> ''u''"
  "cx_key c \<noteq> ''created''" "cx_key c \<noteq> ''lastUpdated''" "cx_key c \<noteq> ''updatedBy''"
  "cx_key c \<noteq> ''contexts''"
  by (simp_all add: cx_key_def)

lemma fst_cx_fields: "fst ` set (cx_fields dk cxids) = cx_key ` set cxids"
  by (auto simp: cx_fields_def image_iff)

lemma add_contexts_all_resolved:
  "distinct cxids \<Longrightarrow> \<forall>c\<in>set cxids. \<exists>k. dk c = Some k \<and> k \<noteq> [] \<Longrightarrow>
   cx_key ` set cxids \<inter> fst ` set m = {} \<Longrightarrow>
   add_contexts dk [] cxids m = (None, m @ cx_fields dk cxids)"
proof (induction cxids arbitrary: m)
  case Nil
  then show ?case by (simp add: cx_fields_def)
next
  case (Cons c cs)
  from Cons.prems obtain k where k: "dk c = Some k" "k \<noteq> []" by auto
  from Cons.prems have a: "cx_key c \<notin> fst ` set m" by auto
  have u: "AList.update (cx_key c) (JStr k) m = m @ [(cx_key c, JStr k)]"
    using a by (rule update_absent)
  have d: "cx_key ` set cs \<inter> fst ` set (m @ [(cx_key c, JStr k)]) = {}"
    using Cons.prems by (auto simp: cx_key_inj)
  from Cons.prems have "distinct cs" "\<forall>c\<in>set cs. \<exists>k. dk c = Some k \<and> k \<noteq> []" by auto
  from Cons.IH [OF this d] k u show ?case
    by (simp add: cx_fields_def)
qed


lemma map_of_cx_fields_scalar:
  "k \<notin> cx_key ` set cxids \<Longrightarrow> map_of (cx_fields dk cxids @ rest) k = map_of rest k"
  by (induction cxids) (auto simp: cx_fields_def)

lemma map_of_cx_fields_hit:
  "c \<in> set cxids \<Longrightarrow> map_of (cx_fields dk cxids @ rest) (cx_key c) = Some (JStr (the (dk c)))"
  by (induction cxids) (auto simp: cx_fields_def cx_key_inj)

lemma scalar_not_cx:
  "''c'' \<notin> cx_key ` set cxids" "''l'' \<notin> cx_key ` set cxids" "''u'' \<notin> cx_key ` set cxids"
  "''created'' \<notin> cx_key ` set cxids" "''lastUpdated'' \<notin> cx_key ` set cxids"
  "''updatedBy'' \<notin> cx_key ` set cxids"
  using cx_key_not_scalar by (auto simp: image_iff) metis+

lemma updateLexeme_keys_fresh:
  assumes d: "distinct cxids" and r: "\<forall>c\<in>set cxids. \<exists>k. dk c = Some k \<and> k \<noteq> []"
  shows "updateLexeme_keys dk (lexeme_obj cxids a b u) None (map fst (lexeme_obj cxids a b u)) [] w
           = (None, lexeme_db dk cxids a b u, w)"
proof -
  have ac: "add_contexts dk [] cxids [] = (None, cx_fields dk cxids)"
    using add_contexts_all_resolved [OF d r, of "[]"] by simp
  have n1: "map_of (cx_fields dk cxids) ''created'' = None"
    using map_of_cx_fields_scalar [OF scalar_not_cx(4), of dk cxids "[]"] by simp
  have u1: "AList.update ''c'' (JStr a) (cx_fields dk cxids) = cx_fields dk cxids @ [(''c'', JStr a)]"
    by (rule update_absent) (simp add: fst_cx_fields scalar_not_cx)
  have n2: "map_of (cx_fields dk cxids @ [(''c'', JStr a)]) ''lastUpdated'' = None"
    using map_of_cx_fields_scalar [OF scalar_not_cx(5), of dk cxids "[(''c'', JStr a)]"] by simp
  have u2: "AList.update ''l'' (JStr b) (cx_fields dk cxids @ [(''c'', JStr a)])
              = cx_fields dk cxids @ [(''c'', JStr a), (''l'', JStr b)]"
    using update_absent [of "''l''" "cx_fields dk cxids @ [(''c'', JStr a)]" "JStr b"]
    by (simp add: fst_cx_fields scalar_not_cx)
  have n3: "map_of (cx_fields dk cxids @ [(''c'', JStr a), (''l'', JStr b)]) ''updatedBy'' = None"
    using map_of_cx_fields_scalar [OF scalar_not_cx(6), of dk cxids "[(''c'', JStr a), (''l'', JStr b)]"]
    by simp
  have u3: "AList.update ''u'' (JStr u) (cx_fields dk cxids @ [(''c'', JStr a), (''l'', JStr b)])
              = cx_fields dk cxids @ [(''c'', JStr a), (''l'', JStr b), (''u'', JStr u)]"
    using update_absent [of "''u''" "cx_fields dk cxids @ [(''c'', JStr a), (''l'', JStr b)]" "JStr u"]
    by (simp add: fst_cx_fields scalar_not_cx)
  show ?thesis
    by (simp add: lexeme_obj_def lexeme_db_def ac n1 u1 n2 u2 n3 u3 lexemeKeyToDb_def
          js_property_name_def del: map_of_append)
qed

lemma getLexeme_contexts_fold:
  "set cs \<subseteq> set cxids \<Longrightarrow> \<forall>c\<in>set cs. c \<noteq> [] \<and> \<not> js_includes c ''cx-'' \<Longrightarrow>
   foldl (getLexeme_step R) ((''contexts'', JArr xs) # rest) (map cx_key cs)
     = (''contexts'', JArr (xs @ cs)) # rest"
  by (induction cs arbitrary: xs) (simp_all add: getLexeme_step_def cxid_of_cx_key)

lemma getLexeme_roundtrip:
  assumes w: "\<forall>c\<in>set cxids. c \<noteq> [] \<and> \<not> js_includes c ''cx-''"
  shows "foldl (getLexeme_step (lexeme_db dk cxids a b u)) [(''contexts'', JArr [])]
            (map fst (lexeme_db dk cxids a b u)) = lexeme_obj cxids a b u"
proof -
  have k: "map fst (lexeme_db dk cxids a b u) = map cx_key cxids @ [''c'', ''l'', ''u'']"
    by (simp add: lexeme_db_def cx_fields_def comp_def)
  have c: "foldl (getLexeme_step (lexeme_db dk cxids a b u)) [(''contexts'', JArr [])] (map cx_key cxids)
             = [(''contexts'', JArr cxids)]"
    using getLexeme_contexts_fold [OF subset_refl w, of "lexeme_db dk cxids a b u" "[]" "[]"] by simp
  have l: "map_of (lexeme_db dk cxids a b u) ''c'' = Some (JStr a)"
    "map_of (lexeme_db dk cxids a b u) ''l'' = Some (JStr b)"
    "map_of (lexeme_db dk cxids a b u) ''u'' = Some (JStr u)"
    by (simp_all add: lexeme_db_def map_of_cx_fields_scalar scalar_not_cx del: map_of_append)
  show ?thesis
    by (simp add: k c getLexeme_step_def cxid_of_scalar_keys l lexemeKeyFromDb_def
          js_property_name_def lexeme_obj_def)
qed

lemma set_docKeys_cx_fold:
  "set cs \<subseteq> set cxids \<Longrightarrow> \<forall>c\<in>set cs. c \<noteq> [] \<and> \<not> js_includes c ''cx-'' \<Longrightarrow>
   fold (\<lambda>key m.
           case cxid_of_key key of
             None \<Rightarrow> m
           | Some cxid \<Rightarrow>
               (case map_of (lexeme_db dk cxids a b u) key of
                  Some (JStr docKey) \<Rightarrow> m(cxid \<mapsto> docKey)
                | _ \<Rightarrow> m(cxid := None)))
     (map cx_key cs) m0 c
   = (if c \<in> set cs then Some (the (dk c)) else m0 c)"
proof (induction cs arbitrary: m0)
  case Nil
  then show ?case by simp
next
  case (Cons x cs)
  then have h: "map_of (lexeme_db dk cxids a b u) (cx_key x) = Some (JStr (the (dk x)))"
    by (simp add: lexeme_db_def map_of_cx_fields_hit del: map_of_append)
  from Cons.prems have p: "set cs \<subseteq> set cxids" "\<forall>c\<in>set cs. c \<noteq> [] \<and> \<not> js_includes c ''cx-''"
    and x: "x \<noteq> []" "\<not> js_includes x ''cx-''"
    by auto
  show ?case
    by (simp add: cxid_of_cx_key [OF x] h Cons.IH [OF p])
qed

lemma set_docKeys_of_contexts_roundtrip:
  assumes w: "\<forall>c\<in>set cxids. c \<noteq> [] \<and> \<not> js_includes c ''cx-''"
    and c: "c \<in> set cxids"
  shows "set_docKeys_of_contexts (lexeme_db dk cxids a b u) m0 c = Some (the (dk c))"
proof -
  have k: "map fst (lexeme_db dk cxids a b u) = map cx_key cxids @ [''c'', ''l'', ''u'']"
    by (simp add: lexeme_db_def cx_fields_def comp_def)
  show ?thesis
    unfolding set_docKeys_of_contexts_def k
    by (simp add: set_docKeys_cx_fold [OF subset_refl w] cxid_of_scalar_keys c)
qed


lemma docKeys_tryDeallocateLexeme: "docKeys (tryDeallocateLexeme k s) = docKeys s"
  by (simp add: tryDeallocateLexeme_def Let_def destroy_doc_def destroy_ws_def split: option.splits)

text \<open>
  The codec round-trips context ids that are not empty and do not contain
  \<^verbatim>\<open>cx-\<close>: written to an empty cached document with every docKey known, the
  lexeme is read back by \<^verbatim>\<open>getLexeme\<close> as it was written, and the end of
  \<^verbatim>\<open>replicateLexeme\<close> stores the docKey of each context again, whatever
  \<^verbatim>\<open>docKeys\<close> held before.
\<close>

theorem lexeme_codec_roundtrip:
  assumes d: "distinct cxids"
    and w: "\<forall>c\<in>set cxids. c \<noteq> [] \<and> \<not> js_includes c ''cx-'' \<and> (\<exists>k. docKeys s c = Some k \<and> k \<noteq> [])"
    and r: "lexemeDocs s key = Some doc" "doc < length (heap_docs s)"
      "ymap_root (heap_docs s ! doc) = []" "ymap_root_undefined (heap_docs s ! doc) = None"
  shows "case updateLexeme_resume key (lexeme_obj cxids a b u) None s of
           (res, s1) \<Rightarrow>
             res = UL_AwaitIdbSynced (lexemePersistence s key)
           \<and> map_option ymap_root (doc_at s1 doc) = Some (lexeme_db (docKeys s) cxids a b u)
           \<and> getLexeme (doc_at s1 doc) = Some (lexeme_obj cxids a b u)
           \<and> (\<forall>c\<in>set cxids.
                 docKeys (snd (replicateLexeme_finish key doc (s1\<lparr>docKeys := dk0\<rparr>))) c = docKeys s c)"
proof -
  from w have w1: "\<forall>c\<in>set cxids. \<exists>k. docKeys s c = Some k \<and> k \<noteq> []"
    and w2: "\<forall>c\<in>set cxids. c \<noteq> [] \<and> \<not> js_includes c ''cx-''"
    by auto
  define s1 where
    "s1 = s\<lparr>heap_docs := (heap_docs s)
              [doc := (heap_docs s ! doc)\<lparr>ymap_root := lexeme_db (docKeys s) cxids a b u,
                                          ymap_root_undefined := None\<rparr>]\<rparr>"
  have e: "updateLexeme_resume key (lexeme_obj cxids a b u) None s
             = (UL_AwaitIdbSynced (lexemePersistence s key), s1)"
    using r by (simp add: updateLexeme_resume_def doc_at_def Let_def getLexeme_def
                  ymap_root_size_def updateLexeme_keys_fresh [OF d w1] s1_def)
  have root: "map_option ymap_root (doc_at s1 doc) = Some (lexeme_db (docKeys s) cxids a b u)"
    using r by (simp add: s1_def doc_at_def)
  have ne: "length (lexeme_db (docKeys s) cxids a b u) \<noteq> 0"
    by (simp add: lexeme_db_def)
  have g: "getLexeme (doc_at s1 doc) = Some (lexeme_obj cxids a b u)"
    using r ne by (simp add: s1_def doc_at_def getLexeme_def ymap_root_size_def
                     ymap_root_toJSON_def getLexeme_roundtrip [OF w2])
  have k: "docKeys (snd (replicateLexeme_finish key doc (s1\<lparr>docKeys := dk0\<rparr>))) c = docKeys s c"
    if c: "c \<in> set cxids" for c
  proof -
    from w1 c obtain v where v: "docKeys s c = Some v" by auto
    have "docKeys (snd (replicateLexeme_finish key doc (s1\<lparr>docKeys := dk0\<rparr>))) c
            = set_docKeys_of_contexts (lexeme_db (docKeys s) cxids a b u) dk0 c"
      using r by (simp add: replicateLexeme_finish_def Let_def docKeys_tryDeallocateLexeme
                    s1_def doc_at_def ymap_root_toJSON_def)
    also have "\<dots> = Some (the (docKeys s c))"
      by (rule set_docKeys_of_contexts_roundtrip [OF w2 c])
    finally show ?thesis by (simp add: v)
  qed
  show ?thesis
    unfolding e using root g k by simp
qed

theorem lexeme_codec_roundtrip_witness:
  "(case updateLexeme_resume ''apple'' (lexeme_obj [''X''] ''t0'' ''t1'' ''me'') None
           (example_lexeme_world\<lparr>docKeys := [''X'' \<mapsto> ''P'']\<rparr>) of
      (res, s1) \<Rightarrow>
        map_option ymap_root (doc_at s1 0) =
          Some [(''cx-X'', JStr ''P''), (''c'', JStr ''t0''), (''l'', JStr ''t1''), (''u'', JStr ''me'')]
      \<and> getLexeme (doc_at s1 0) = Some (lexeme_obj [''X''] ''t0'' ''t1'' ''me'')
      \<and> docKeys (snd (replicateLexeme_finish ''apple'' 0 (s1\<lparr>docKeys := Map.empty\<rparr>))) ''X'' = Some ''P'')"
  using lexeme_codec_roundtrip
     [where cxids = "[''X'']" and s = "example_lexeme_world\<lparr>docKeys := [''X'' \<mapsto> ''P'']\<rparr>"
        and key = "''apple''" and doc = 0 and a = "''t0''" and b = "''t1''" and u = "''me''"
        and ?dk0.0 = Map.empty]
  by (simp add: example_lexeme_world_def replicateLexeme_main_def started_world_def
        init_module_state_def initial_world_def
        example_constants_def example_config_def alloc_doc_def alloc_idb_def alloc_ws_def
        encodeLexemeDocumentName_def Let_def new_YDoc_def split_def lexeme_db_def cx_fields_def cx_key_def)

text \<open>
  Claim C9, evaluated where it fails. The context id \<^verbatim>\<open>acx-b\<close> with docKey \<^verbatim>\<open>P\<close>
  is written as the field \<^verbatim>\<open>cx-acx-b\<close>. Reading the document back,
  \<^verbatim>\<open>getLexeme\<close> returns the context \<^verbatim>\<open>a\<close>, and the end of \<^verbatim>\<open>replicateLexeme\<close> stores
  the docKey \<^verbatim>\<open>P\<close> under \<^verbatim>\<open>a\<close> and nothing under \<^verbatim>\<open>acx-b\<close>: the second piece of
  \<^verbatim>\<open>key.split('cx-')\<close> is only the part of the id before its own \<^verbatim>\<open>cx-\<close>.
\<close>

theorem context_id_containing_separator_is_truncated:
  "(case updateLexeme_resume ''apple'' (example_lexeme ''acx-b'') None
           (example_lexeme_world\<lparr>docKeys := [''acx-b'' \<mapsto> ''P'']\<rparr>) of
      (r, s) \<Rightarrow>
        r = UL_AwaitIdbSynced (Some 0)
      \<and> map_option ymap_root (doc_at s 0) =
          Some [(''cx-acx-b'', JStr ''P''), (''c'', JStr ''t0''), (''l'', JStr ''t1''), (''u'', JStr ''me'')]
      \<and> map_option (\<lambda>l. map_of l ''contexts'') (getLexeme (doc_at s 0)) = Some (Some (JArr [''a'']))
      \<and> (case replicateLexeme_finish ''apple'' 0 (s\<lparr>docKeys := Map.empty\<rparr>) of
            (l, s') \<Rightarrow> docKeys s' ''a'' = Some ''P'' \<and> docKeys s' ''acx-b'' = None))"
  by (simp add: lexeme_eval_defs example_defs)

end
